theory Spec2Isabelle
  imports Main
begin

section \<open>Values, errors and data frames\<close>

text \<open>
  The pipeline passes pandas data frames built from the JSON the source API returns.
  A cell holds a JSON scalar: a null (pandas NaN / None), a text or a number. Datetime
  values (\<open>datetime.now()\<close>, the result of \<open>pd.to_datetime\<close>) are represented by
  their seconds since the epoch, as a number. Floating-point numbers, booleans and nested
  JSON values are outside the model.
\<close>

datatype cell = Null | Str string | Num int

text \<open>
  Exceptions, as values. Every \<open>raise\<close> of the source is an \<open>Inl\<close> of the model.
  \<open>Timeout\<close> and \<open>RequestException\<close> are the exceptions of the HTTP library,
  \<open>WarehouseError\<close> stands for any exception of the BigQuery client, and
  \<open>SystemExit\<close> is what \<open>sys.exit\<close> raises; each carries its message or code.
\<close>

datatype error =
    KeyError string
  | AttributeError string
  | Timeout string
  | RequestException string
  | WarehouseError string
  | SystemExit int

text \<open>
  A data frame: the column labels in order, and the rows in index order. A row gives the
  cell of every column label; the labels that are not columns of the frame are \<open>Null\<close>
  in the frames the pipeline builds, and only \<open>columns\<close> says which columns exist.
\<close>

type_synonym row = "string \<Rightarrow> cell"

record frame =
  columns :: "string list"
  rows :: "row list"

definition bind_err :: "error + 'a \<Rightarrow> ('a \<Rightarrow> error + 'b) \<Rightarrow> error + 'b" where
  "bind_err m f = (case m of Inl e \<Rightarrow> Inl e | Inr x \<Rightarrow> f x)"

subsection \<open>Python string methods (ASCII)\<close>

text \<open>
  \<open>str.strip()\<close>, \<open>str.lower()\<close> and \<open>str.title()\<close> on ASCII text: the white space
  characters are TAB, LF, VT, FF, CR, FS, GS, RS, US and the space; the cased characters
  are the letters A-Z and a-z. A byte above 127 is kept as it is.
\<close>

definition is_space :: "char \<Rightarrow> bool" where
  "is_space c = (let n = (of_char c :: nat) in (9 \<le> n \<and> n \<le> 13) \<or> (28 \<le> n \<and> n \<le> 32))"

definition is_upper :: "char \<Rightarrow> bool" where
  "is_upper c = (let n = (of_char c :: nat) in 65 \<le> n \<and> n \<le> 90)"

definition is_lower :: "char \<Rightarrow> bool" where
  "is_lower c = (let n = (of_char c :: nat) in 97 \<le> n \<and> n \<le> 122)"

definition to_lower :: "char \<Rightarrow> char" where
  "to_lower c = (if is_upper c then char_of ((of_char c :: nat) + 32) else c)"

definition to_upper :: "char \<Rightarrow> char" where
  "to_upper c = (if is_lower c then char_of ((of_char c :: nat) - 32) else c)"

definition strip :: "string \<Rightarrow> string" where
  "strip s = rev (dropWhile is_space (rev (dropWhile is_space s)))"

definition lower :: "string \<Rightarrow> string" where
  "lower s = map to_lower s"

text \<open>
  \<open>str.title()\<close>: a cased character that follows a cased character is lower-cased, any
  other cased character is upper-cased; \<open>prev\<close> is CPython's \<open>previous_is_cased\<close>.
\<close>

fun title_from :: "bool \<Rightarrow> string \<Rightarrow> string" where
  "title_from prev [] = []"
| "title_from prev (c # cs) =
     (if is_lower c then (if prev then c else to_upper c) # title_from True cs
      else if is_upper c then (if prev then to_lower c else c) # title_from True cs
      else c # title_from False cs)"

definition title :: "string \<Rightarrow> string" where
  "title s = title_from False s"

subsection \<open>pandas operations on a column\<close>

text \<open>\<open>Series.fillna(value)\<close>: every null becomes the value.\<close>

definition fillna :: "cell list \<Rightarrow> cell \<Rightarrow> cell list" where
  "fillna s v = map (\<lambda>x. if x = Null then v else x) s"

fun is_str :: "cell \<Rightarrow> bool" where
  "is_str (Str _) = True"
| "is_str _ = False"

text \<open>
  The \<open>.str\<close> accessor. pandas infers the type of the column from its non-null values and
  raises AttributeError when the column holds numbers only. A method of the accessor
  maps the texts and gives a null for every other value.
\<close>

definition str_accessor :: "cell list \<Rightarrow> error + cell list" where
  "str_accessor s =
     (if (\<exists>x \<in> set s. x \<noteq> Null) \<and> \<not> (\<exists>x \<in> set s. is_str x)
      then Inl (AttributeError ''Can only use .str accessor with string values'')
      else Inr s)"

fun str_apply :: "(string \<Rightarrow> string) \<Rightarrow> cell \<Rightarrow> cell" where
  "str_apply f (Str t) = Str (f t)"
| "str_apply f _ = Null"

definition str_method :: "(string \<Rightarrow> string) \<Rightarrow> cell list \<Rightarrow> error + cell list" where
  "str_method f s = bind_err (str_accessor s) (\<lambda>s'. Inr (map (str_apply f) s'))"

text \<open>
  \<open>pd.to_numeric(s, errors="coerce")\<close>: a number stays, a text is parsed, and what does
  not parse becomes a null. The parser of numeric literals is the parameter \<open>parse\<close>.
\<close>

fun to_numeric :: "(string \<Rightarrow> int option) \<Rightarrow> cell \<Rightarrow> cell" where
  "to_numeric parse Null = Null"
| "to_numeric parse (Num n) = Num n"
| "to_numeric parse (Str t) = (case parse t of None \<Rightarrow> Null | Some n \<Rightarrow> Num n)"

text \<open>
  \<open>pd.to_datetime(s, unit="s", errors="coerce")\<close>: seconds since the epoch, a null (NaT)
  outside the range of a nanosecond timestamp of 64 bits and for what is not a number.
\<close>

fun to_datetime :: "cell \<Rightarrow> cell" where
  "to_datetime (Num t) = (if - 9223372036 \<le> t \<and> t \<le> 9223372036 then Num t else Null)"
| "to_datetime _ = Null"

subsection \<open>pandas operations on a frame\<close>

text \<open>\<open>df.empty\<close>: an axis of length 0.\<close>

definition df_empty :: "frame \<Rightarrow> bool" where
  "df_empty df = (rows df = [] \<or> columns df = [])"

text \<open>\<open>len(df)\<close>\<close>

definition len :: "frame \<Rightarrow> nat" where
  "len df = length (rows df)"

text \<open>\<open>df[c]\<close>: KeyError when the column does not exist.\<close>

definition get_col :: "frame \<Rightarrow> string \<Rightarrow> error + cell list" where
  "get_col df c =
     (if c \<in> set (columns df) then Inr (map (\<lambda>r. r c) (rows df)) else Inl (KeyError c))"

text \<open>
  \<open>df[c] = series\<close>, for a series computed from the frame itself (same index): a new
  column is appended, an existing one is replaced.
\<close>

definition set_col :: "frame \<Rightarrow> string \<Rightarrow> cell list \<Rightarrow> frame" where
  "set_col df c s =
     \<lparr>columns = (if c \<in> set (columns df) then columns df else columns df @ [c]),
      rows = map2 (\<lambda>r v. r(c := v)) (rows df) s\<rparr>"

text \<open>\<open>df[c] = value\<close>, a scalar for every row.\<close>

definition set_const :: "frame \<Rightarrow> string \<Rightarrow> cell \<Rightarrow> frame" where
  "set_const df c v = set_col df c (replicate (length (rows df)) v)"

text \<open>\<open>df.loc[mask, c] = value\<close> for an existing column \<open>c\<close>.\<close>

definition loc_set :: "frame \<Rightarrow> bool list \<Rightarrow> string \<Rightarrow> cell \<Rightarrow> frame" where
  "loc_set df sel c v =
     df\<lparr>rows := map2 (\<lambda>r m. if m then r(c := v) else r) (rows df) sel\<rparr>"

text \<open>\<open>df[cs].copy()\<close> for labels \<open>cs\<close> that are columns of the frame.\<close>

definition select_cols :: "frame \<Rightarrow> string list \<Rightarrow> frame" where
  "select_cols df cs =
     \<lparr>columns = cs, rows = map (\<lambda>r c. if c \<in> set cs then r c else Null) (rows df)\<rparr>"

text \<open>\<open>df.drop(columns=[c], inplace=True)\<close> for an existing column.\<close>

definition drop_col :: "frame \<Rightarrow> string \<Rightarrow> frame" where
  "drop_col df c =
     \<lparr>columns = filter (\<lambda>x. x \<noteq> c) (columns df), rows = map (\<lambda>r. r(c := Null)) (rows df)\<rparr>"

text \<open>
  \<open>Series.duplicated(keep="first")\<close>: a value is a duplicate when it occurred before;
  nulls are equal to each other. \<open>seen\<close> holds the values met so far.
\<close>

fun duplicated :: "cell list \<Rightarrow> cell list \<Rightarrow> bool list" where
  "duplicated seen [] = []"
| "duplicated seen (k # ks) = (k \<in> set seen) # duplicated (k # seen) ks"

text \<open>\<open>df.drop_duplicates(subset=[c], inplace=True)\<close>: KeyError for a missing column.\<close>

definition drop_duplicates :: "frame \<Rightarrow> string \<Rightarrow> error + frame" where
  "drop_duplicates df c =
     bind_err (get_col df c) (\<lambda>keys.
       Inr (df\<lparr>rows := map fst (filter (\<lambda>(r, d). \<not> d) (zip (rows df) (duplicated [] keys)))\<rparr>))"

section \<open>The Transformer (etl/transform.py)\<close>

definition columns_needed :: "string list" where
  "columns_needed =
     [''code'', ''product_name'', ''categories'', ''quantity'', ''stores'', ''countries'',
      ''nutriscore_grade'', ''last_modified_t'']"

text \<open>Step 3, one line: \<open>df[c] = df[c].fillna(d)\<close>.\<close>

definition fill_col :: "string \<Rightarrow> string \<Rightarrow> frame \<Rightarrow> error + frame" where
  "fill_col c d df = bind_err (get_col df c) (\<lambda>s. Inr (set_col df c (fillna s (Str d))))"

definition handle_nulls :: "frame \<Rightarrow> error + frame" where
  "handle_nulls df =
     bind_err (fill_col ''product_name'' ''Unknown Product'' df) (\<lambda>df.
     bind_err (fill_col ''categories'' ''Uncategorized'' df) (\<lambda>df.
     bind_err (fill_col ''stores'' ''Unknown Store'' df) (\<lambda>df.
     bind_err (fill_col ''countries'' ''Unknown Country'' df) (\<lambda>df.
     bind_err (fill_col ''nutriscore_grade'' ''not_rated'' df) (\<lambda>df.
     fill_col ''quantity'' ''Unknown'' df)))))"

text \<open>Step 4, one line: \<open>df[c] = df[c].str.strip().str.f()\<close>.\<close>

definition strip_then :: "(string \<Rightarrow> string) \<Rightarrow> string \<Rightarrow> frame \<Rightarrow> error + frame" where
  "strip_then f c df =
     bind_err (get_col df c) (\<lambda>s.
     bind_err (str_method strip s) (\<lambda>s1.
     bind_err (str_method f s1) (\<lambda>s2.
     Inr (set_col df c s2))))"

definition standardize_text :: "frame \<Rightarrow> error + frame" where
  "standardize_text df =
     bind_err (strip_then title ''product_name'' df) (\<lambda>df.
     strip_then lower ''nutriscore_grade'' df)"

text \<open>Step 5: the timestamp column, when there is one, becomes a date column.\<close>

definition convert_timestamp :: "(string \<Rightarrow> int option) \<Rightarrow> frame \<Rightarrow> frame" where
  "convert_timestamp parse df =
     (if ''last_modified_t'' \<in> set (columns df) then
        let t = map (\<lambda>r. to_numeric parse (r ''last_modified_t'')) (rows df);
            df1 = set_col df ''last_modified_t'' t;
            df2 = set_col df1 ''last_modified_date'' (map to_datetime t)
        in drop_col df2 ''last_modified_t''
      else df)"

text \<open>Step 6; \<open>now\<close> is the value of \<open>datetime.now()\<close>.\<close>

definition add_metadata :: "int \<Rightarrow> frame \<Rightarrow> frame" where
  "add_metadata now df =
     set_const (set_const df ''extracted_at'' (Num now)) ''pipeline_version'' (Str ''1.0'')"

text \<open>Step 7: the later assignment overwrites the earlier one.\<close>

definition flag_quality :: "frame \<Rightarrow> error + frame" where
  "flag_quality df =
     (let df1 = set_const df ''quality_flag'' (Str ''ok'') in
      bind_err (get_col df1 ''product_name'') (\<lambda>names.
      let df2 = loc_set df1 (map (\<lambda>v. v = Str ''Unknown Product'') names)
                  ''quality_flag'' (Str ''missing_name'') in
      bind_err (get_col df2 ''nutriscore_grade'') (\<lambda>grades.
      Inr (loc_set df2 (map (\<lambda>v. v = Str ''not_rated'') grades)
             ''quality_flag'' (Str ''missing_nutriscore'')))))"

definition transform_product_data ::
  "(string \<Rightarrow> int option) \<Rightarrow> int \<Rightarrow> frame \<Rightarrow> error + frame" where
  "transform_product_data parse now df =
     (if df_empty df then Inr df
      else
        let columns_present = filter (\<lambda>c. c \<in> set (columns df)) columns_needed;
            df1 = select_cols df columns_present
        in
        bind_err (drop_duplicates df1 ''code'') (\<lambda>df2.
        bind_err (handle_nulls df2) (\<lambda>df3.
        bind_err (standardize_text df3) (\<lambda>df4.
        flag_quality (add_metadata now (convert_timestamp parse df4))))))"

section \<open>The warehouse, the Loader and the AuditLogger (etl/load.py)\<close>

text \<open>What a Python function returns: \<open>None\<close> or an integer.\<close>

datatype pyval = PyNone | PyInt int

text \<open>One row of the table \<open>pipeline_audit_log\<close>.\<close>

record audit_entry =
  run_timestamp :: int
  status :: string
  rows_loaded :: nat
  error_message :: "string option"
  pipeline_version :: string

text \<open>The lines the Loader, the AuditLogger and the orchestrator print.\<close>

datatype log_line =
    LoadStart nat
  | LoadSkippedEmpty
  | DatasetReady
  | DatasetExists error
  | LoadingToStaging
  | StagingComplete
  | ProductionUpdated
  | Verified int
  | LoadError error
  | AuditUpdated string
  | AuditWarning error
  | PipelineStart string
  | Extracted nat
  | Cleaned nat
  | PipelineComplete nat
  | PipelineFailed error

text \<open>
  The state outside the program: the staging and production tables (\<open>None\<close> while a
  table does not exist), the audit table, and the standard output.
\<close>

record world =
  staging :: "frame option"
  production :: "frame option"
  audit_log :: "audit_entry list"
  stdout :: "log_line list"

text \<open>The answer of the source API to the search request.\<close>

datatype http_result =
    HttpTimeout string
  | HttpFailure string
  | HttpJson "(string \<times> cell) list list option"

text \<open>
  What the external services do during one run; the program has no influence on it.
  A field \<open>..._error\<close> is the exception the call raises, \<open>None\<close> when it succeeds.
  \<^item> \<open>api category page_size\<close>: the answer of the source API;
  \<open>HttpJson None\<close> is a JSON object without the key \<open>products\<close>.
  \<^item> \<open>client_error\<close>, \<open>audit_client_error\<close>: creating the BigQuery client, in the Loader
  and in the AuditLogger.
  \<^item> \<open>create_dataset_error\<close>, \<open>staging_error\<close>, \<open>swap_error\<close>, \<open>count_error\<close>: steps 1
  to 4 of the Loader. \<open>failed_staging\<close> is what a failed load job leaves in the staging
  table, from its previous contents. The swap is one statement
  \<open>CREATE OR REPLACE TABLE production AS SELECT * FROM staging\<close>, which the warehouse
  runs atomically: production holds the staging rows when it succeeds and is untouched
  when it fails.
  \<^item> \<open>count_rows\<close>: the rows of the answer to the count query, the value \<open>total\<close> of each.
  \<^item> \<open>audit_write_error\<close>: the append to the audit table.
  \<^item> \<open>datetimes_to_text\<close>: the copy of a frame with its datetime columns converted by
  \<open>astype(str)\<close>.
  \<^item> \<open>parse_number\<close>: the parser of \<open>pd.to_numeric\<close>; \<open>clock\<close>: \<open>datetime.now()\<close>.
\<close>

record services =
  api :: "string \<Rightarrow> nat \<Rightarrow> http_result"
  client_error :: "error option"
  create_dataset_error :: "error option"
  staging_error :: "error option"
  failed_staging :: "frame option \<Rightarrow> frame option"
  swap_error :: "error option"
  count_error :: "error option"
  count_rows :: "int list"
  audit_client_error :: "error option"
  audit_write_error :: "error option"
  datetimes_to_text :: "frame \<Rightarrow> frame"
  parse_number :: "string \<Rightarrow> int option"
  clock :: int

definition say :: "log_line \<Rightarrow> world \<Rightarrow> world" where
  "say l w = w\<lparr>stdout := stdout w @ [l]\<rparr>"

text \<open>The body of the \<open>try\<close> block of \<open>load_to_bigquery\<close>.\<close>

definition load_steps :: "services \<Rightarrow> frame \<Rightarrow> world \<Rightarrow> (error + unit) \<times> world" where
  "load_steps sv df w =
     (case client_error sv of
        Some e \<Rightarrow> (Inl e, w)
      | None \<Rightarrow>
          let w1 = (case create_dataset_error sv of
                      None \<Rightarrow> say DatasetReady w
                    | Some e \<Rightarrow> say (DatasetExists e) w);
              df_load = datetimes_to_text sv df;
              w2 = say LoadingToStaging w1
          in
          (case staging_error sv of
             Some e \<Rightarrow> (Inl e, w2\<lparr>staging := failed_staging sv (staging w2)\<rparr>)
           | None \<Rightarrow>
               let w3 = say StagingComplete (w2\<lparr>staging := Some df_load\<rparr>) in
               (case swap_error sv of
                  Some e \<Rightarrow> (Inl e, w3)
                | None \<Rightarrow>
                    let w4 = say ProductionUpdated (w3\<lparr>production := staging w3\<rparr>) in
                    (case count_error sv of
                       Some e \<Rightarrow> (Inl e, w4)
                     | None \<Rightarrow> (Inr (), foldl (\<lambda>w n. say (Verified n) w) w4 (count_rows sv))))))"

definition load_to_bigquery :: "services \<Rightarrow> frame \<Rightarrow> world \<Rightarrow> (error + pyval) \<times> world" where
  "load_to_bigquery sv df w =
     (let w0 = say (LoadStart (len df)) w in
      if df_empty df then (Inr PyNone, say LoadSkippedEmpty w0)
      else
        (case load_steps sv df w0 of
           (Inl e, w') \<Rightarrow> (Inl e, say (LoadError e) w')
         | (Inr _, w') \<Rightarrow> (Inr PyNone, w')))"

text \<open>\<open>str(e)\<close> of an exception: its message; for a KeyError the quoted key.\<close>

fun error_text :: "error \<Rightarrow> string" where
  "error_text (KeyError k) = CHR 0x27 # k @ [CHR 0x27]"
| "error_text (AttributeError m) = m"
| "error_text (Timeout m) = m"
| "error_text (RequestException m) = m"
| "error_text (WarehouseError m) = m"
| "error_text (SystemExit n) = (if n = 1 then ''1'' else ''exit'')"

text \<open>The row \<open>log_entry\<close> that \<open>log_pipeline_run\<close> builds.\<close>

definition log_entry :: "services \<Rightarrow> string \<Rightarrow> nat \<Rightarrow> error option \<Rightarrow> audit_entry" where
  "log_entry sv st n err =
     \<lparr>run_timestamp = clock sv, status = st, rows_loaded = n,
      error_message = map_option error_text err, pipeline_version = ''1.0''\<rparr>"

text \<open>The body of the \<open>try\<close> block of \<open>log_pipeline_run\<close>.\<close>

definition audit_steps ::
  "services \<Rightarrow> string \<Rightarrow> nat \<Rightarrow> error option \<Rightarrow> world \<Rightarrow> (error + unit) \<times> world" where
  "audit_steps sv st n err w =
     (case audit_client_error sv of
        Some e \<Rightarrow> (Inl e, w)
      | None \<Rightarrow>
          (case audit_write_error sv of
             Some e \<Rightarrow> (Inl e, w)
           | None \<Rightarrow>
               (Inr (), say (AuditUpdated st)
                          (w\<lparr>audit_log := audit_log w @ [log_entry sv st n err]\<rparr>))))"

definition log_pipeline_run ::
  "services \<Rightarrow> string \<Rightarrow> nat \<Rightarrow> error option \<Rightarrow> world \<Rightarrow> (error + pyval) \<times> world" where
  "log_pipeline_run sv st n err w =
     (case audit_steps sv st n err w of
        (Inl e, w') \<Rightarrow> (Inr PyNone, say (AuditWarning e) w')
      | (Inr _, w') \<Rightarrow> (Inr PyNone, w'))"

section \<open>The Extractor (etl/extract.py)\<close>

text \<open>
  \<open>pd.DataFrame(products)\<close> for a list of JSON objects: the columns are the keys in the
  order of their first appearance, and a key a product does not have is a null.
\<close>

definition frame_of_records :: "(string \<times> cell) list list \<Rightarrow> frame" where
  "frame_of_records ps =
     \<lparr>columns = rev (remdups (rev (concat (map (map fst) ps)))),
      rows = map (\<lambda>p c. case map_of p c of None \<Rightarrow> Null | Some v \<Rightarrow> v) ps\<rparr>"

definition extract_product_data :: "services \<Rightarrow> string \<Rightarrow> nat \<Rightarrow> error + frame" where
  "extract_product_data sv category page_size =
     (case api sv category page_size of
        HttpTimeout m \<Rightarrow> Inl (Timeout m)
      | HttpFailure m \<Rightarrow> Inl (RequestException m)
      | HttpJson data \<Rightarrow>
          let products = (case data of None \<Rightarrow> [] | Some ps \<Rightarrow> ps) in
          if products = [] then Inr \<lparr>columns = [], rows = []\<rparr>
          else Inr (frame_of_records products))"

section \<open>The orchestrator (etl/pipeline.py)\<close>

text \<open>
  The \<open>try\<close> block of \<open>run_pipeline\<close>. It returns, with the result, the value the local
  variable \<open>rows_loaded\<close> has when the block is left.
\<close>

definition run_steps ::
  "services \<Rightarrow> string \<Rightarrow> nat \<Rightarrow> world \<Rightarrow> (error + unit) \<times> nat \<times> world" where
  "run_steps sv category rows_loaded' w =
     (case extract_product_data sv category 100 of
        Inl e \<Rightarrow> (Inl e, rows_loaded', w)
      | Inr df_raw \<Rightarrow>
          let w1 = say (Extracted (len df_raw)) w in
          (case transform_product_data (parse_number sv) (clock sv) df_raw of
             Inl e \<Rightarrow> (Inl e, rows_loaded', w1)
           | Inr df_clean \<Rightarrow>
               let w2 = say (Cleaned (len df_clean)) w1 in
               (case load_to_bigquery sv df_clean w2 of
                  (Inl e, w3) \<Rightarrow> (Inl e, rows_loaded', w3)
                | (Inr _, w3) \<Rightarrow>
                    let rows_loaded' = len df_clean in
                    (case log_pipeline_run sv ''SUCCESS'' rows_loaded' None w3 of
                       (Inl e, w4) \<Rightarrow> (Inl e, rows_loaded', w4)
                     | (Inr _, w4) \<Rightarrow>
                         (Inr (), rows_loaded', say (PipelineComplete rows_loaded') w4)))))"

definition run_pipeline :: "services \<Rightarrow> string \<Rightarrow> world \<Rightarrow> (error + pyval) \<times> world" where
  "run_pipeline sv category w =
     (let w0 = say (PipelineStart category) w;
          rows_loaded' = 0
      in
      case run_steps sv category rows_loaded' w0 of
        (Inr _, _, w') \<Rightarrow> (Inr PyNone, w')
      | (Inl e, rows_loaded', w') \<Rightarrow>
          let w1 = say (PipelineFailed e) w';
              (_, w2) = log_pipeline_run sv ''FAILED'' rows_loaded' (Some e) w1
          in (Inl (SystemExit 1), w2))"

text \<open>The exit code of the process that runs \<open>run_pipeline\<close> as its main program.\<close>

fun exit_code :: "error + pyval \<Rightarrow> int" where
  "exit_code (Inr _) = 0"
| "exit_code (Inl (SystemExit n)) = n"
| "exit_code (Inl _) = 1"

section \<open>Notions used to state the claims\<close>

text \<open>
  The definitions of this section are not translated from the source. They describe what
  the Transformer does to one record, and name the cases of the Loader and of a run; the
  lemmas of the next sections prove that the model above agrees with them.
\<close>

subsection \<open>The Transformer, one record at a time\<close>

text \<open>
  Step 1 on one record: the cells of the columns that are kept.
\<close>

definition project_row :: "string list \<Rightarrow> row \<Rightarrow> row" where
  "project_row cs r = (\<lambda>c. if c \<in> set cs then r c else Null)"

text \<open>
  Step 3 on one record: a null in column \<open>c\<close> becomes the default \<open>d\<close>; the six
  defaults in the order of the source.
\<close>

definition fill_row :: "string \<Rightarrow> string \<Rightarrow> row \<Rightarrow> row" where
  "fill_row c d r = r(c := (if r c = Null then Str d else r c))"

definition fill_rows :: "row \<Rightarrow> row" where
  "fill_rows r =
     fill_row ''quantity'' ''Unknown''
      (fill_row ''nutriscore_grade'' ''not_rated''
        (fill_row ''countries'' ''Unknown Country''
          (fill_row ''stores'' ''Unknown Store''
            (fill_row ''categories'' ''Uncategorized''
              (fill_row ''product_name'' ''Unknown Product'' r)))))"

text \<open>
  Step 4 on one record: the text in column \<open>c\<close> is stripped and mapped by \<open>f\<close>.
\<close>

definition str_row :: "(string \<Rightarrow> string) \<Rightarrow> string \<Rightarrow> row \<Rightarrow> row" where
  "str_row f c r = r(c := str_apply f (str_apply strip (r c)))"

text \<open>
  Steps 5, 6 and 7 on one record.
\<close>

definition date_row :: "(string \<Rightarrow> int option) \<Rightarrow> row \<Rightarrow> row" where
  "date_row parse r =
     r(''last_modified_date'' := to_datetime (to_numeric parse (r ''last_modified_t'')),
       ''last_modified_t'' := Null)"

definition meta_row :: "int \<Rightarrow> row \<Rightarrow> row" where
  "meta_row now r = r(''extracted_at'' := Num now, ''pipeline_version'' := Str ''1.0'')"

definition flag_row :: "row \<Rightarrow> row" where
  "flag_row r =
     r(''quality_flag'' :=
         (if r ''nutriscore_grade'' = Str ''not_rated'' then Str ''missing_nutriscore''
          else if r ''product_name'' = Str ''Unknown Product'' then Str ''missing_name''
          else Str ''ok''))"

text \<open>
  Step 2: the records that \<open>drop_duplicates\<close> keeps, those whose code did not occur
  before; \<open>seen\<close> holds the codes met so far.
\<close>

definition keep_first :: "cell list \<Rightarrow> row list \<Rightarrow> row list" where
  "keep_first seen rs =
     map fst (filter (\<lambda>(r, d). \<not> d) (zip rs (duplicated seen (map (\<lambda>r. r ''code'') rs))))"

text \<open>
  All the steps on one record of a frame with the columns \<open>cols\<close>.
\<close>

definition clean_row :: "(string \<Rightarrow> int option) \<Rightarrow> int \<Rightarrow> string list \<Rightarrow> row \<Rightarrow> row" where
  "clean_row parse now cols r =
     flag_row (meta_row now
       ((if ''last_modified_t'' \<in> set cols then date_row parse else id)
         (str_row lower ''nutriscore_grade'' (str_row title ''product_name''
           (fill_rows (project_row (filter (\<lambda>c. c \<in> set cols) columns_needed) r))))))"

text \<open>
  The six columns with a documented default, and the codes of the records of a frame
  (none when the frame has no column \<open>code\<close>).
\<close>

definition text_columns :: "string list" where
  "text_columns = [''product_name'', ''categories'', ''stores'', ''countries'',
     ''nutriscore_grade'', ''quantity'']"

definition codes :: "frame \<Rightarrow> cell list" where
  "codes df = (if ''code'' \<in> set (columns df) then map (\<lambda>r. r ''code'') (rows df) else [])"

fun is_num :: "cell \<Rightarrow> bool" where
  "is_num (Num _) = True"
| "is_num _ = False"

subsection \<open>The Loader, the AuditLogger and a run\<close>

text \<open>
  The exception that stops the AuditLogger, if any.
\<close>

definition audit_failure :: "services \<Rightarrow> error option" where
  "audit_failure sv =
     (case audit_client_error sv of Some e \<Rightarrow> Some e | None \<Rightarrow> audit_write_error sv)"

text \<open>
  The lines the AuditLogger prints, one for every call, and their number on the
  standard output.
\<close>

fun is_audit_line :: "log_line \<Rightarrow> bool" where
  "is_audit_line (AuditUpdated _) = True"
| "is_audit_line (AuditWarning _) = True"
| "is_audit_line _ = False"

definition audit_calls :: "world \<Rightarrow> nat" where
  "audit_calls w = length (filter is_audit_line (stdout w))"

text \<open>
  The line step 1 of the Loader prints, and the state after the lines of step 1 and of
  the start of step 2.
\<close>

definition dataset_line :: "services \<Rightarrow> log_line" where
  "dataset_line sv =
     (case create_dataset_error sv of None \<Rightarrow> DatasetReady | Some e \<Rightarrow> DatasetExists e)"

definition staged :: "services \<Rightarrow> world \<Rightarrow> world" where
  "staged sv w = say LoadingToStaging (say (dataset_line sv) w)"

text \<open>
  The first exception among those the Loader does not catch (client creation, staging
  write, swap, count query), and whether the swap is reached and succeeds.
\<close>

definition load_failure :: "services \<Rightarrow> error option" where
  "load_failure sv =
     (case client_error sv of Some e \<Rightarrow> Some e | None \<Rightarrow>
      case staging_error sv of Some e \<Rightarrow> Some e | None \<Rightarrow>
      case swap_error sv of Some e \<Rightarrow> Some e | None \<Rightarrow> count_error sv)"

definition swapped :: "services \<Rightarrow> bool" where
  "swapped sv \<longleftrightarrow> client_error sv = None \<and> staging_error sv = None \<and> swap_error sv = None"

text \<open>
  The batch the Extractor and the Transformer hand to the Loader, the exception that
  makes a run fail, if any, and the audit entry of the run.
\<close>

definition clean_batch :: "services \<Rightarrow> string \<Rightarrow> error + frame" where
  "clean_batch sv category =
     bind_err (extract_product_data sv category 100)
       (transform_product_data (parse_number sv) (clock sv))"

definition stage_failure :: "services \<Rightarrow> string \<Rightarrow> error option" where
  "stage_failure sv category =
     (case clean_batch sv category of
        Inl e \<Rightarrow> Some e
      | Inr df \<Rightarrow> if df_empty df then None else load_failure sv)"

definition run_entry :: "services \<Rightarrow> string \<Rightarrow> audit_entry" where
  "run_entry sv category =
     (case stage_failure sv category of
        Some e \<Rightarrow> log_entry sv ''FAILED'' 0 (Some e)
      | None \<Rightarrow>
          log_entry sv ''SUCCESS''
            (case clean_batch sv category of Inr df \<Rightarrow> len df | Inl _ \<Rightarrow> 0) None)"

section \<open>Example inputs\<close>

text \<open>
  A batch of three records with a duplicated code and a record without name and grade;
  a batch whose first record has no code and a number as product name; a batch whose
  records have nothing but a code.
\<close>

definition example_row :: "string \<Rightarrow> cell \<Rightarrow> cell \<Rightarrow> row" where
  "example_row c n g =
     (\<lambda>_. Null)(''code'' := Str c, ''product_name'' := n, ''nutriscore_grade'' := g)"

definition example_batch :: frame where
  "example_batch =
     \<lparr>columns = [''code'', ''product_name'', ''categories'', ''quantity'', ''stores'',
        ''countries'', ''nutriscore_grade''],
      rows = [example_row ''A1'' (Str ''cola'') (Str ''B''),
              example_row ''A2'' Null Null,
              example_row ''A1'' (Str ''dup'') (Str ''c'')]\<rparr>"

definition numeric_name_batch :: frame where
  "numeric_name_batch =
     \<lparr>columns = [''code'', ''product_name'', ''categories'', ''quantity'', ''stores'',
        ''countries'', ''nutriscore_grade''],
      rows = [(\<lambda>_. Null)(''product_name'' := Num 5),
              example_row ''B1'' (Str ''tea'') (Str ''a'')]\<rparr>"

definition code_only_batch :: frame where
  "code_only_batch = \<lparr>columns = [''code''], rows = [(\<lambda>_. Null)(''code'' := Str ''A1'')]\<rparr>"

definition one_row_batch :: frame where
  "one_row_batch = \<lparr>columns = [''code''], rows = [(\<lambda>_. Null)(''code'' := Str ''A1'')]\<rparr>"

text \<open>
  The frame \<open>pd.DataFrame([{}])\<close>, which the Extractor builds when the API answers with
  one product that has no field: one row and no column.
\<close>

definition fieldless_batch :: frame where
  "fieldless_batch = frame_of_records [[]]"

text \<open>
  Services without any failure and an API that answers with no product; empty tables; an
  API that times out; an audit table that cannot be written.
\<close>

definition healthy :: services where
  "healthy =
     \<lparr>api = (\<lambda>_ _. HttpJson (Some [])),
      client_error = None, create_dataset_error = None, staging_error = None,
      failed_staging = id, swap_error = None, count_error = None, count_rows = [1],
      audit_client_error = None, audit_write_error = None, datetimes_to_text = id,
      parse_number = (\<lambda>_. None), clock = 0\<rparr>"

definition fresh :: world where
  "fresh = \<lparr>staging = None, production = None, audit_log = [], stdout = []\<rparr>"

definition timed_out :: services where
  "timed_out = healthy\<lparr>api := (\<lambda>_ _. HttpTimeout ''timed out'')\<rparr>"

definition broken_audit :: services where
  "broken_audit = healthy\<lparr>audit_write_error := Some (WarehouseError ''audit table missing'')\<rparr>"

section \<open>Properties of the Transformer\<close>

subsection \<open>Every step acts row by row\<close>

lemma map2_map_same: "map2 f xs (map h xs) = map (\<lambda>x. f x (h x)) xs"
  by (induction xs) auto

lemma map2_replicate_same: "map2 f xs (replicate (length xs) v) = map (\<lambda>x. f x v) xs"
  by (induction xs) auto

lemma bind_err_Inr_iff:
  "bind_err m f = Inr y \<longleftrightarrow> (\<exists>x. m = Inr x \<and> f x = Inr y)"
  by (cases m) (auto simp: bind_err_def)

lemma fill_col_eq:
  "fill_col c d df =
     (if c \<in> set (columns df)
      then Inr \<lparr>columns = columns df, rows = map (fill_row c d) (rows df)\<rparr>
      else Inl (KeyError c))"
  by (auto simp: fill_col_def get_col_def bind_err_def set_col_def fillna_def
      map2_map_same fill_row_def)

lemma handle_nulls_Inr:
  assumes "handle_nulls df = Inr df'"
  shows "columns df' = columns df \<and> rows df' = map fill_rows (rows df)
    \<and> set [''product_name'', ''categories'', ''stores'', ''countries'',
           ''nutriscore_grade'', ''quantity''] \<subseteq> set (columns df)"
  using assms unfolding handle_nulls_def
  by (auto simp: bind_err_Inr_iff fill_col_eq fill_rows_def split: if_splits)

lemma str_method_Inr: "str_method f s = Inr s' \<Longrightarrow> s' = map (str_apply f) s"
  by (auto simp: str_method_def bind_err_Inr_iff str_accessor_def split: if_splits)

lemma strip_then_Inr:
  assumes "strip_then f c df = Inr df'"
  shows "columns df' = columns df \<and> rows df' = map (str_row f c) (rows df)
    \<and> c \<in> set (columns df)"
proof -
  from assms obtain s s1 s2 where
    s: "get_col df c = Inr s" and s1: "str_method strip s = Inr s1"
    and s2: "str_method f s1 = Inr s2" and df': "df' = set_col df c s2"
    unfolding strip_then_def by (auto simp: bind_err_Inr_iff)
  from s have c: "c \<in> set (columns df)" and sv: "s = map (\<lambda>r. r c) (rows df)"
    by (auto simp: get_col_def split: if_splits)
  have "s2 = map (\<lambda>r. str_apply f (str_apply strip (r c))) (rows df)"
    using str_method_Inr[OF s1] str_method_Inr[OF s2] sv by simp
  then show ?thesis
    using c df' by (simp add: set_col_def map2_map_same str_row_def)
qed

lemma standardize_text_Inr:
  assumes "standardize_text df = Inr df'"
  shows "columns df' = columns df
    \<and> rows df' = map (str_row lower ''nutriscore_grade'' \<circ> str_row title ''product_name'') (rows df)"
proof -
  from assms obtain d1 where a: "strip_then title ''product_name'' df = Inr d1"
    and b: "strip_then lower ''nutriscore_grade'' d1 = Inr df'"
    unfolding standardize_text_def by (auto simp: bind_err_Inr_iff)
  show ?thesis using strip_then_Inr[OF a] strip_then_Inr[OF b] by simp
qed

lemma map2_map_map: "map2 f (map g xs) (map h xs) = map (\<lambda>x. f (g x) (h x)) xs"
  by (induction xs) auto

lemma set_col_rows_map:
  "rows df = map g xs \<Longrightarrow> rows (set_col df c (map h xs)) = map (\<lambda>x. (g x)(c := h x)) xs"
  by (simp add: set_col_def map2_map_map)

lemma set_const_rows: "rows (set_const df c v) = map (\<lambda>r. r(c := v)) (rows df)"
  by (simp add: set_const_def set_col_def map2_replicate_same)

lemma set_const_columns:
  "columns (set_const df c v) = (if c \<in> set (columns df) then columns df else columns df @ [c])"
  by (simp add: set_const_def set_col_def)

lemma convert_timestamp_rows:
  "rows (convert_timestamp parse df) =
     (if ''last_modified_t'' \<in> set (columns df) then map (date_row parse) (rows df)
      else rows df)"
proof (cases "''last_modified_t'' \<in> set (columns df)")
  case True
  let ?t = "map (\<lambda>r. to_numeric parse (r ''last_modified_t'')) (rows df)"
  let ?d1 = "set_col df ''last_modified_t'' ?t"
  have r1: "rows ?d1 = map (\<lambda>r. r(''last_modified_t'' := to_numeric parse (r ''last_modified_t''))) (rows df)"
    using set_col_rows_map[of df id "rows df" "''last_modified_t''"] by simp
  have "rows (set_col ?d1 ''last_modified_date'' (map to_datetime ?t)) =
      map (\<lambda>r. (r(''last_modified_t'' := to_numeric parse (r ''last_modified_t'')))
                 (''last_modified_date'' := to_datetime (to_numeric parse (r ''last_modified_t''))))
          (rows df)"
    using set_col_rows_map[OF r1, of "''last_modified_date''"
        "\<lambda>r. to_datetime (to_numeric parse (r ''last_modified_t''))"]
    by (simp add: comp_def)
  then have "rows (convert_timestamp parse df) =
      map (\<lambda>r. ((r(''last_modified_t'' := to_numeric parse (r ''last_modified_t'')))
                 (''last_modified_date'' := to_datetime (to_numeric parse (r ''last_modified_t''))))
                 (''last_modified_t'' := Null)) (rows df)"
    using True by (simp add: convert_timestamp_def Let_def drop_col_def comp_def)
  moreover have "\<And>r. ((r(''last_modified_t'' := to_numeric parse (r ''last_modified_t'')))
                 (''last_modified_date'' := to_datetime (to_numeric parse (r ''last_modified_t''))))
                 (''last_modified_t'' := Null) = date_row parse r"
    by (auto simp: date_row_def)
  ultimately show ?thesis using True by simp
next
  case False
  then show ?thesis by (simp add: convert_timestamp_def)
qed

lemma convert_timestamp_columns:
  "set (columns (convert_timestamp parse df)) =
     (if ''last_modified_t'' \<in> set (columns df)
      then insert ''last_modified_date'' (set (columns df) - {''last_modified_t''})
      else set (columns df))"
  by (auto simp: convert_timestamp_def Let_def set_col_def drop_col_def)

lemma add_metadata_rows: "rows (add_metadata now df) = map (meta_row now) (rows df)"
  by (simp add: add_metadata_def set_const_rows meta_row_def comp_def)

lemma add_metadata_columns: "set (columns (add_metadata now df)) =
   set (columns df) \<union> {''extracted_at'', ''pipeline_version''}"
  by (auto simp: add_metadata_def set_const_columns)

lemma loc_set_rows_map:
  "rows df = map g xs \<Longrightarrow>
   rows (loc_set df (map p xs) c v) = map (\<lambda>x. if p x then (g x)(c := v) else g x) xs"
  by (simp add: loc_set_def map2_map_map)

lemma flag_quality_Inr:
  assumes "flag_quality df = Inr df'"
  shows "rows df' = map flag_row (rows df)
    \<and> set (columns df') = insert ''quality_flag'' (set (columns df))"
proof -
  let ?d1 = "set_const df ''quality_flag'' (Str ''ok'')"
  let ?d2 = "loc_set ?d1 (map (\<lambda>r. r ''product_name'' = Str ''Unknown Product'') (rows ?d1))
                  ''quality_flag'' (Str ''missing_name'')"
  let ?d3 = "loc_set ?d2 (map (\<lambda>r. r ''nutriscore_grade'' = Str ''not_rated'') (rows ?d2))
                  ''quality_flag'' (Str ''missing_nutriscore'')"
  from assms have df': "df' = ?d3"
    unfolding flag_quality_def Let_def
    by (auto simp: bind_err_Inr_iff get_col_def comp_def split: if_splits)
  have r1: "rows ?d1 = map (\<lambda>r. r(''quality_flag'' := Str ''ok'')) (rows df)"
    by (rule set_const_rows)
  have r2: "rows ?d2 = map (\<lambda>r. if r ''product_name'' = Str ''Unknown Product''
              then r(''quality_flag'' := Str ''missing_name'')
              else r(''quality_flag'' := Str ''ok'')) (rows df)"
    using loc_set_rows_map[OF r1, of "\<lambda>r. r ''product_name'' = Str ''Unknown Product''"
        "''quality_flag''" "Str ''missing_name''"]
    by (simp add: comp_def r1)
  have r3: "rows ?d3 = map (\<lambda>r. if r ''nutriscore_grade'' = Str ''not_rated''
              then r(''quality_flag'' := Str ''missing_nutriscore'')
              else if r ''product_name'' = Str ''Unknown Product''
              then r(''quality_flag'' := Str ''missing_name'')
              else r(''quality_flag'' := Str ''ok'')) (rows df)"
    using loc_set_rows_map[OF r2, of "\<lambda>r. r ''nutriscore_grade'' = Str ''not_rated''"
        "''quality_flag''" "Str ''missing_nutriscore''"]
    by (simp add: comp_def r2 cong: if_cong)
  have "columns ?d3 = columns ?d1" by (simp add: loc_set_def)
  then have "set (columns ?d3) = insert ''quality_flag'' (set (columns df))"
    by (auto simp: set_const_columns)
  moreover have "rows ?d3 = map flag_row (rows df)"
    unfolding r3 by (rule map_cong) (auto simp: flag_row_def)
  ultimately show ?thesis using df' by simp
qed

subsection \<open>Deduplication\<close>

lemma keep_first_Nil: "keep_first seen [] = []"
  by (simp add: keep_first_def)

lemma keep_first_Cons:
  "keep_first seen (r # rs) =
     (if r ''code'' \<in> set seen then keep_first (r ''code'' # seen) rs
      else r # keep_first (r ''code'' # seen) rs)"
  by (simp add: keep_first_def)

lemma keep_first_codes:
  "set (map (\<lambda>r. r ''code'') (keep_first seen rs)) = set (map (\<lambda>r. r ''code'') rs) - set seen"
  by (induction rs arbitrary: seen) (auto simp: keep_first_Nil keep_first_Cons)

lemma keep_first_distinct: "distinct (map (\<lambda>r. r ''code'') (keep_first seen rs))"
proof (induction rs arbitrary: seen)
  case Nil
  show ?case by (simp add: keep_first_Nil)
next
  case (Cons r rs)
  have "r ''code'' \<notin> set (map (\<lambda>r. r ''code'') (keep_first (r ''code'' # seen) rs))"
    unfolding keep_first_codes by simp
  with Cons show ?case by (simp add: keep_first_Cons)
qed

lemma keep_first_find:
  "x \<in> set (keep_first seen rs) \<Longrightarrow> find (\<lambda>y. y ''code'' = x ''code'') rs = Some x"
proof (induction rs arbitrary: seen)
  case Nil
  then show ?case by (simp add: keep_first_Nil)
next
  case (Cons r rs)
  show ?case
  proof (cases "x = r")
    case True
    then show ?thesis by simp
  next
    case False
    with Cons.prems have x: "x \<in> set (keep_first (r ''code'' # seen) rs)"
      by (auto simp: keep_first_Cons split: if_splits)
    then have "x ''code'' \<in> set (map (\<lambda>r. r ''code'') (keep_first (r ''code'' # seen) rs))"
      by (auto simp del: keep_first_codes)
    then have "x ''code'' \<noteq> r ''code''"
      unfolding keep_first_codes by auto
    with Cons.IH[OF x] show ?thesis by simp
  qed
qed

lemma keep_first_subset: "set (keep_first seen rs) \<subseteq> set rs"
  by (induction rs arbitrary: seen) (auto simp: keep_first_Nil keep_first_Cons)

lemma keep_first_map:
  "(\<And>r. g r ''code'' = r ''code'') \<Longrightarrow> keep_first seen (map g rs) = map g (keep_first seen rs)"
  by (induction rs arbitrary: seen) (auto simp: keep_first_Nil keep_first_Cons)

lemma drop_duplicates_code:
  "drop_duplicates df ''code'' =
     (if ''code'' \<in> set (columns df)
      then Inr \<lparr>columns = columns df, rows = keep_first [] (rows df)\<rparr>
      else Inl (KeyError ''code''))"
  by (simp add: drop_duplicates_def get_col_def bind_err_def keep_first_def)

lemma find_distinct_key:
  "distinct (map k xs) \<Longrightarrow> x \<in> set xs \<Longrightarrow> find (\<lambda>y. k y = k x) xs = Some x"
  by (induction xs) (auto simp: image_iff)

subsection \<open>The result on a non-empty batch\<close>

lemma transform_nonempty:
  assumes ok: "transform_product_data parse now df = Inr out" and ne: "\<not> df_empty df"
  shows "rows out = map (clean_row parse now (columns df)) (keep_first [] (rows df))
    \<and> set (''code'' # text_columns) \<subseteq> set (columns df)
    \<and> set (''code'' # ''quality_flag'' # text_columns) \<subseteq> set (columns out)"
proof -
  define cp where "cp = filter (\<lambda>c. c \<in> set (columns df)) columns_needed"
  define df1 where "df1 = select_cols df cp"
  from ok ne obtain df2 df3 df4 where
    d2: "drop_duplicates df1 ''code'' = Inr df2" and
    d3: "handle_nulls df2 = Inr df3" and
    d4: "standardize_text df3 = Inr df4" and
    d5: "flag_quality (add_metadata now (convert_timestamp parse df4)) = Inr out"
    unfolding transform_product_data_def Let_def cp_def df1_def
    by (auto simp: bind_err_Inr_iff)
  have c1: "columns df1 = cp" and r1: "rows df1 = map (project_row cp) (rows df)"
    by (simp_all add: df1_def select_cols_def project_row_def)
  from d2 have code_cp: "''code'' \<in> set cp"
    and c2: "columns df2 = cp" and r2: "rows df2 = keep_first [] (rows df1)"
    by (auto simp: drop_duplicates_code c1 split: if_splits)
  have r2': "rows df2 = map (project_row cp) (keep_first [] (rows df))"
    unfolding r2 r1 by (rule keep_first_map) (simp add: project_row_def code_cp)
  note h3 = handle_nulls_Inr[OF d3]
  note h4 = standardize_text_Inr[OF d4]
  have c4: "columns df4 = cp" using h3 h4 c2 by simp
  have r4: "rows df4 = map (str_row lower ''nutriscore_grade'' \<circ> str_row title ''product_name''
              \<circ> fill_rows \<circ> project_row cp) (keep_first [] (rows df))"
    using h3 h4 r2' by simp
  have lmt: "''last_modified_t'' \<in> set cp \<longleftrightarrow> ''last_modified_t'' \<in> set (columns df)"
    by (simp add: cp_def columns_needed_def)
  note h5 = flag_quality_Inr[OF d5]
  have "rows out = map (clean_row parse now (columns df)) (keep_first [] (rows df))"
    using h5 r4 c4 lmt
    by (simp add: add_metadata_rows convert_timestamp_rows clean_row_def cp_def comp_def)
  moreover have sub: "set (''code'' # text_columns) \<subseteq> set cp"
    using h3 c2 code_cp by (simp add: text_columns_def)
  then have "set (''code'' # text_columns) \<subseteq> set (columns df)"
    by (auto simp: cp_def)
  moreover have "set (''code'' # ''quality_flag'' # text_columns) \<subseteq> set (columns out)"
    using h5 sub c4 by (auto simp: add_metadata_columns convert_timestamp_columns text_columns_def)
  ultimately show ?thesis by blast
qed

subsection \<open>The fields of a cleaned record\<close>

lemma code_needed: "''code'' \<in> set columns_needed"
  by (simp add: columns_needed_def)

lemma fill_row_other: "k \<noteq> c \<Longrightarrow> fill_row c d r k = r k"
  by (simp add: fill_row_def)

lemma fill_row_same: "fill_row c d r c = (if r c = Null then Str d else r c)"
  by (simp add: fill_row_def)

lemma str_row_other: "k \<noteq> c \<Longrightarrow> str_row f c r k = r k"
  by (simp add: str_row_def)

lemma str_row_same: "str_row f c r c = str_apply f (str_apply strip (r c))"
  by (simp add: str_row_def)

lemma date_row_other:
  "k \<noteq> ''last_modified_t'' \<Longrightarrow> k \<noteq> ''last_modified_date'' \<Longrightarrow> date_row parse r k = r k"
  by (simp add: date_row_def)

lemma meta_row_other:
  "k \<noteq> ''extracted_at'' \<Longrightarrow> k \<noteq> ''pipeline_version'' \<Longrightarrow> meta_row now r k = r k"
  by (simp add: meta_row_def)

lemma flag_row_other: "k \<noteq> ''quality_flag'' \<Longrightarrow> flag_row r k = r k"
  by (simp add: flag_row_def)

lemma flag_row_same:
  "flag_row r ''quality_flag'' =
     (if r ''nutriscore_grade'' = Str ''not_rated'' then Str ''missing_nutriscore''
      else if r ''product_name'' = Str ''Unknown Product'' then Str ''missing_name''
      else Str ''ok'')"
  by (simp add: flag_row_def)

lemma project_row_in: "k \<in> set cs \<Longrightarrow> project_row cs r k = r k"
  by (simp add: project_row_def)

lemmas row_other = fill_row_other str_row_other date_row_other meta_row_other flag_row_other

lemma clean_row_code:
  "''code'' \<in> set cols \<Longrightarrow> clean_row parse now cols r ''code'' = r ''code''"
  by (simp add: clean_row_def fill_rows_def row_other project_row_in code_needed)

subsection \<open>One record per code, the first one\<close>

text \<open>
  Claim C1. Whenever the Transformer returns a frame, the frame holds exactly one record
  for each distinct \<open>code\<close> of the input (the codes of the output are pairwise different
  and are the codes of the input), and for every code the output record is the cleaned
  form of the first input record that has this code.
\<close>

theorem transform_first_per_code:
  assumes ok: "transform_product_data parse now df = Inr out"
  shows "distinct (codes out) \<and> set (codes out) = set (codes df) \<and>
    (\<forall>c \<in> set (codes df). \<exists>x.
       find (\<lambda>r. r ''code'' = c) (rows df) = Some x \<and>
       find (\<lambda>r. r ''code'' = c) (rows out) = Some (clean_row parse now (columns df) x))"
proof (cases "df_empty df")
  case True
  with ok have "out = df" by (simp add: transform_product_data_def)
  moreover from True have "codes df = []" by (auto simp: df_empty_def codes_def)
  ultimately show ?thesis by simp
next
  case False
  let ?k = "\<lambda>r::row. r ''code''"
  let ?g = "clean_row parse now (columns df)"
  let ?kept = "keep_first [] (rows df)"
  note tn = transform_nonempty[OF ok False]
  from tn have ro: "rows out = map ?g ?kept" by (rule conjunct1)
  from tn have cin: "''code'' \<in> set (columns df)" by simp
  from tn have cout: "''code'' \<in> set (columns out)" by simp
  have kg: "\<And>r. ?k (?g r) = ?k r" using cin by (simp add: clean_row_code)
  have co: "codes out = map ?k ?kept" using cout ro kg by (simp add: codes_def comp_def)
  have ci: "codes df = map ?k (rows df)" using cin by (simp add: codes_def)
  have d: "distinct (codes out)" unfolding co by (rule keep_first_distinct)
  have s: "set (codes out) = set (codes df)" unfolding co ci keep_first_codes by simp
  have "\<exists>x. find (\<lambda>r. r ''code'' = c) (rows df) = Some x \<and>
       find (\<lambda>r. r ''code'' = c) (rows out) = Some (?g x)" if c: "c \<in> set (codes df)" for c
  proof -
    from c s co have "c \<in> ?k ` set ?kept" by simp
    then obtain x where x: "x \<in> set ?kept" and xc: "?k x = c" by blast
    have f1: "find (\<lambda>r. r ''code'' = c) (rows df) = Some x"
      using keep_first_find[OF x] xc by simp
    have "distinct (map ?k (rows out))" using d cout by (simp add: codes_def)
    moreover have "?g x \<in> set (rows out)" using x ro by simp
    ultimately have "find (\<lambda>y. ?k y = ?k (?g x)) (rows out) = Some (?g x)"
      by (rule find_distinct_key)
    then have "find (\<lambda>r. r ''code'' = c) (rows out) = Some (?g x)"
      using kg xc by simp
    with f1 show ?thesis by blast
  qed
  with d s show ?thesis by blast
qed

subsection \<open>When the Transformer returns\<close>

lemma str_accessor_ok: "\<exists>x \<in> set s. is_str x \<Longrightarrow> str_accessor s = Inr s"
  by (simp add: str_accessor_def)

lemma is_str_apply: "is_str (str_apply f x) = is_str x"
  by (cases x) simp_all

lemma strip_then_ok:
  assumes c: "c \<in> set (columns df)" and s: "\<exists>r \<in> set (rows df). is_str (r c)"
  shows "strip_then f c df = Inr \<lparr>columns = columns df, rows = map (str_row f c) (rows df)\<rparr>"
proof -
  let ?s = "map (\<lambda>r. r c) (rows df)"
  let ?s1 = "map (\<lambda>r. str_apply strip (r c)) (rows df)"
  let ?s2 = "map (\<lambda>r. str_apply f (str_apply strip (r c))) (rows df)"
  have g: "get_col df c = Inr ?s" using c by (simp add: get_col_def)
  have "str_accessor ?s = Inr ?s" using s by (intro str_accessor_ok) auto
  then have m1: "str_method strip ?s = Inr ?s1"
    by (simp add: str_method_def bind_err_def)
  have "str_accessor ?s1 = Inr ?s1"
    using s by (intro str_accessor_ok) (auto simp: is_str_apply)
  then have m2: "str_method f ?s1 = Inr ?s2"
    by (simp add: str_method_def bind_err_def)
  have "set_col df c ?s2 = \<lparr>columns = columns df, rows = map (str_row f c) (rows df)\<rparr>"
    using c by (simp add: set_col_def map2_map_same str_row_def)
  then show ?thesis
    by (simp add: strip_then_def g m1 m2 bind_err_def)
qed

lemma is_str_fill_row: "is_str (fill_row c d r c) = (\<not> is_num (r c))"
  by (cases "r c") (simp_all add: fill_row_same)

lemma transform_succeeds:
  assumes ne: "\<not> df_empty df"
    and cols: "set (''code'' # text_columns) \<subseteq> set (columns df)"
    and name: "\<exists>r \<in> set (keep_first [] (rows df)). \<not> is_num (r ''product_name'')"
    and grade: "\<exists>r \<in> set (keep_first [] (rows df)). \<not> is_num (r ''nutriscore_grade'')"
  shows "\<exists>out. transform_product_data parse now df = Inr out"
proof -
  define cp where "cp = filter (\<lambda>c. c \<in> set (columns df)) columns_needed"
  define df1 where "df1 = select_cols df cp"
  have needed: "set (''code'' # text_columns) \<subseteq> set columns_needed"
    by (simp add: text_columns_def columns_needed_def)
  have sub: "set (''code'' # text_columns) \<subseteq> set cp"
    using cols needed unfolding cp_def by auto
  have c1: "columns df1 = cp" and r1: "rows df1 = map (project_row cp) (rows df)"
    by (simp_all add: df1_def select_cols_def project_row_def)
  define rs2 where "rs2 = map (project_row cp) (keep_first [] (rows df))"
  have "keep_first [] (rows df1) = rs2"
    unfolding r1 rs2_def by (rule keep_first_map) (use sub in \<open>simp add: project_row_def\<close>)
  then have d2: "drop_duplicates df1 ''code'' = Inr \<lparr>columns = cp, rows = rs2\<rparr>"
    using sub by (simp add: drop_duplicates_code c1)
  have d3: "handle_nulls \<lparr>columns = cp, rows = rs2\<rparr> = Inr \<lparr>columns = cp, rows = map fill_rows rs2\<rparr>"
    using sub by (simp add: handle_nulls_def fill_col_eq bind_err_def fill_rows_def
        text_columns_def comp_def)
  have n3: "\<exists>r \<in> set (map fill_rows rs2). is_str (r ''product_name'')"
  proof -
    from name obtain r where r: "r \<in> set (keep_first [] (rows df))"
      and nn: "\<not> is_num (r ''product_name'')" by blast
    have "project_row cp r ''product_name'' = r ''product_name''"
      using sub by (simp add: project_row_in text_columns_def)
    then have "is_str (fill_rows (project_row cp r) ''product_name'')"
      using nn by (simp add: fill_rows_def fill_row_other is_str_fill_row)
    with r show ?thesis by (auto simp: rs2_def)
  qed
  define rs4a where "rs4a = map (str_row title ''product_name'') (map fill_rows rs2)"
  have d4a: "strip_then title ''product_name'' \<lparr>columns = cp, rows = map fill_rows rs2\<rparr>
      = Inr \<lparr>columns = cp, rows = rs4a\<rparr>"
    unfolding rs4a_def using strip_then_ok[of "''product_name''" "\<lparr>columns = cp, rows = map fill_rows rs2\<rparr>" title] n3 sub
    by (simp add: text_columns_def)
  have g4: "\<exists>r \<in> set rs4a. is_str (r ''nutriscore_grade'')"
  proof -
    from grade obtain r where r: "r \<in> set (keep_first [] (rows df))"
      and nn: "\<not> is_num (r ''nutriscore_grade'')" by blast
    have "project_row cp r ''nutriscore_grade'' = r ''nutriscore_grade''"
      using sub by (simp add: project_row_in text_columns_def)
    then have "is_str (str_row title ''product_name'' (fill_rows (project_row cp r)) ''nutriscore_grade'')"
      using nn by (simp add: fill_rows_def fill_row_other str_row_other is_str_fill_row)
    with r show ?thesis by (auto simp: rs2_def rs4a_def)
  qed
  have d4b: "strip_then lower ''nutriscore_grade'' \<lparr>columns = cp, rows = rs4a\<rparr>
      = Inr \<lparr>columns = cp, rows = map (str_row lower ''nutriscore_grade'') rs4a\<rparr>"
    using strip_then_ok[of "''nutriscore_grade''" "\<lparr>columns = cp, rows = rs4a\<rparr>" lower] g4 sub
    by (simp add: text_columns_def)
  have d4: "standardize_text \<lparr>columns = cp, rows = map fill_rows rs2\<rparr>
      = Inr \<lparr>columns = cp, rows = map (str_row lower ''nutriscore_grade'') rs4a\<rparr>"
    by (simp add: standardize_text_def d4a d4b bind_err_def)
  have d5: "\<exists>out. flag_quality df5 = Inr out"
    if "''product_name'' \<in> set (columns df5)" "''nutriscore_grade'' \<in> set (columns df5)" for df5
    using that by (simp add: flag_quality_def Let_def get_col_def bind_err_def
        set_const_columns loc_set_def)
  have "\<exists>out. flag_quality (add_metadata now (convert_timestamp parse
      \<lparr>columns = cp, rows = map (str_row lower ''nutriscore_grade'') rs4a\<rparr>)) = Inr out"
    using sub by (intro d5) (simp_all add: add_metadata_columns convert_timestamp_columns
        text_columns_def)
  then show ?thesis
    using ne unfolding transform_product_data_def Let_def cp_def[symmetric] df1_def[symmetric]
    by (simp add: d2 d3 d4 bind_err_def)
qed

lemma example_row_sel:
  "example_row c n g ''code'' = Str c"
  "example_row c n g ''product_name'' = n"
  "example_row c n g ''nutriscore_grade'' = g"
  by (simp_all add: example_row_def)

lemma example_batch_ok:
  "\<exists>out. transform_product_data (\<lambda>_. None) 0 example_batch = Inr out"
proof (rule transform_succeeds)
  show "\<not> df_empty example_batch" by (simp add: df_empty_def example_batch_def)
  show "set (''code'' # text_columns) \<subseteq> set (columns example_batch)"
    by (simp add: text_columns_def example_batch_def)
  show "\<exists>r \<in> set (keep_first [] (rows example_batch)). \<not> is_num (r ''product_name'')"
    by (simp add: example_batch_def keep_first_Cons example_row_sel)
  show "\<exists>r \<in> set (keep_first [] (rows example_batch)). \<not> is_num (r ''nutriscore_grade'')"
    by (simp add: example_batch_def keep_first_Cons example_row_sel)
qed

theorem transform_first_per_code_witness:
  "\<exists>out. transform_product_data (\<lambda>_. None) 0 example_batch = Inr out
     \<and> distinct (codes out) \<and> set (codes out) = {Str ''A1'', Str ''A2''}
     \<and> find (\<lambda>r. r ''code'' = Str ''A1'') (rows out)
         = Some (clean_row (\<lambda>_. None) 0 (columns example_batch)
                  (example_row ''A1'' (Str ''cola'') (Str ''B'')))"
proof -
  from example_batch_ok obtain out where
    ok: "transform_product_data (\<lambda>_. None) 0 example_batch = Inr out" by blast
  have cs: "codes example_batch = [Str ''A1'', Str ''A2'', Str ''A1'']"
    by (simp add: codes_def example_batch_def example_row_sel)
  have f: "find (\<lambda>r. r ''code'' = Str ''A1'') (rows example_batch)
      = Some (example_row ''A1'' (Str ''cola'') (Str ''B''))"
    by (simp add: example_batch_def example_row_sel)
  note t = transform_first_per_code[OF ok]
  from t have d: "distinct (codes out)" by (rule conjunct1)
  from t have s: "set (codes out) = {Str ''A1'', Str ''A2''}" by (auto simp: cs)
  from t have "\<exists>x. find (\<lambda>r. r ''code'' = Str ''A1'') (rows example_batch) = Some x \<and>
       find (\<lambda>r. r ''code'' = Str ''A1'') (rows out)
         = Some (clean_row (\<lambda>_. None) 0 (columns example_batch) x)"
    by (simp add: cs)
  with f have "find (\<lambda>r. r ''code'' = Str ''A1'') (rows out)
         = Some (clean_row (\<lambda>_. None) 0 (columns example_batch)
                  (example_row ''A1'' (Str ''cola'') (Str ''B'')))" by simp
  with ok d s show ?thesis by blast
qed

subsection \<open>The quality flag\<close>

lemma transform_rows_empty:
  assumes ok: "transform_product_data parse now df = Inr out" and e: "rows df = []"
  shows "rows out = []"
  using assms by (simp add: transform_product_data_def df_empty_def)

lemma clean_row_flag:
  "clean_row parse now cols x ''quality_flag'' =
     (if clean_row parse now cols x ''nutriscore_grade'' = Str ''not_rated''
      then Str ''missing_nutriscore''
      else if clean_row parse now cols x ''product_name'' = Str ''Unknown Product''
      then Str ''missing_name'' else Str ''ok'')"
  by (simp add: clean_row_def flag_row_same flag_row_other)

text \<open>
  Claim C3, as amended. For every record the Transformer returns for an input that has at
  least one column, \<open>quality_flag\<close> is \<open>missing_nutriscore\<close> whenever the nutrition
  grade is \<open>not_rated\<close>, also when the product name is \<open>Unknown Product\<close>; it is
  \<open>missing_name\<close> when the name is \<open>Unknown Product\<close> and the grade is not
  \<open>not_rated\<close>; and \<open>ok\<close> otherwise. An input without columns is empty for
  \<open>df.empty\<close> and is returned as it is: its records get no quality flag.
\<close>

theorem quality_flag_priority:
  assumes ok: "transform_product_data parse now df = Inr out"
    and cols: "columns df \<noteq> []" and r: "r \<in> set (rows out)"
  shows "r ''quality_flag'' =
     (if r ''nutriscore_grade'' = Str ''not_rated'' then Str ''missing_nutriscore''
      else if r ''product_name'' = Str ''Unknown Product'' then Str ''missing_name''
      else Str ''ok'')"
proof -
  have "rows df \<noteq> []" using transform_rows_empty[OF ok] r by auto
  with cols have ne: "\<not> df_empty df" by (simp add: df_empty_def)
  from transform_nonempty[OF ok ne]
  have "rows out = map (clean_row parse now (columns df)) (keep_first [] (rows df))"
    by (rule conjunct1)
  with r obtain x where "r = clean_row parse now (columns df) x" by auto
  then show ?thesis by (simp only: clean_row_flag)
qed

subsection \<open>Defaults and nulls\<close>

lemma title_default: "title (strip ''Unknown Product'') = ''Unknown Product''"
  by (simp add: title_def strip_def is_space_def is_lower_def is_upper_def to_upper_def
      to_lower_def)

lemma lower_default: "lower (strip ''not_rated'') = ''not_rated''"
  by (simp add: lower_def strip_def is_space_def is_lower_def is_upper_def to_upper_def
      to_lower_def)

lemma needed_name: "''product_name'' \<in> set columns_needed"
  by (simp add: columns_needed_def)

lemma needed_grade: "''nutriscore_grade'' \<in> set columns_needed"
  by (simp add: columns_needed_def)

lemma clean_row_name:
  assumes "''product_name'' \<in> set cols"
  shows "clean_row parse now cols x ''product_name'' =
     str_apply title (str_apply strip
       (if x ''product_name'' = Null then Str ''Unknown Product'' else x ''product_name''))"
  using assms
  by (simp add: clean_row_def fill_rows_def row_other str_row_same fill_row_same
      project_row_in needed_name)

lemma clean_row_grade:
  assumes "''nutriscore_grade'' \<in> set cols"
  shows "clean_row parse now cols x ''nutriscore_grade'' =
     str_apply lower (str_apply strip
       (if x ''nutriscore_grade'' = Null then Str ''not_rated'' else x ''nutriscore_grade''))"
  using assms
  by (simp add: clean_row_def fill_rows_def row_other str_row_same fill_row_same
      project_row_in needed_grade)

lemma clean_row_categories:
  "''categories'' \<in> set cols \<Longrightarrow> clean_row parse now cols x ''categories'' =
     (if x ''categories'' = Null then Str ''Uncategorized'' else x ''categories'')"
  by (simp add: clean_row_def fill_rows_def row_other fill_row_same project_row_in
      columns_needed_def[THEN arg_cong[where f=set]])

lemma clean_row_stores:
  "''stores'' \<in> set cols \<Longrightarrow> clean_row parse now cols x ''stores'' =
     (if x ''stores'' = Null then Str ''Unknown Store'' else x ''stores'')"
  by (simp add: clean_row_def fill_rows_def row_other fill_row_same project_row_in
      columns_needed_def[THEN arg_cong[where f=set]])

lemma clean_row_countries:
  "''countries'' \<in> set cols \<Longrightarrow> clean_row parse now cols x ''countries'' =
     (if x ''countries'' = Null then Str ''Unknown Country'' else x ''countries'')"
  by (simp add: clean_row_def fill_rows_def row_other fill_row_same project_row_in
      columns_needed_def[THEN arg_cong[where f=set]])

lemma clean_row_quantity:
  "''quantity'' \<in> set cols \<Longrightarrow> clean_row parse now cols x ''quantity'' =
     (if x ''quantity'' = Null then Str ''Unknown'' else x ''quantity'')"
  by (simp add: clean_row_def fill_rows_def row_other fill_row_same project_row_in
      columns_needed_def[THEN arg_cong[where f=set]])

lemma str_apply_Null: "str_apply f (str_apply g v) = Null \<longleftrightarrow> \<not> is_str v"
  by (cases v) simp_all

lemma not_str_fill: "\<not> is_str (if v = Null then Str d else v) \<longleftrightarrow> is_num v"
  by (cases v) simp_all

lemma transform_source:
  assumes ok: "transform_product_data parse now df = Inr out" and ne: "\<not> df_empty df"
    and r: "r \<in> set (rows out)"
    and x: "find (\<lambda>y. y ''code'' = r ''code'') (rows df) = Some x"
  shows "r = clean_row parse now (columns df) x"
proof -
  note tn = transform_nonempty[OF ok ne]
  from tn have ro: "rows out = map (clean_row parse now (columns df)) (keep_first [] (rows df))"
    by (rule conjunct1)
  from tn have cin: "''code'' \<in> set (columns df)" by simp
  from r ro obtain x' where x': "x' \<in> set (keep_first [] (rows df))"
    and rx: "r = clean_row parse now (columns df) x'" by auto
  have "r ''code'' = x' ''code''" using rx cin by (simp add: clean_row_code)
  with keep_first_find[OF x'] x have "x = x'" by simp
  with rx show ?thesis by simp
qed

text \<open>
  Claim C2, as amended. For a non-empty batch on which the Transformer returns, let \<open>x\<close>
  be the source record of an output record \<open>r\<close> (the first input record with the code
  of \<open>r\<close>). Each of the six fields with a documented default that is null in \<open>x\<close>
  holds its default in \<open>r\<close>; categories, stores, countries and quantity are never null
  in \<open>r\<close>; product name and nutrition grade are null in \<open>r\<close> exactly when the source
  value is a number, which the \<open>.str\<close> methods turn into a null. The code and the
  last-modified date have no default and are not covered.
\<close>

theorem transform_defaults:
  assumes ok: "transform_product_data parse now df = Inr out" and ne: "\<not> df_empty df"
    and r: "r \<in> set (rows out)"
    and x: "find (\<lambda>y. y ''code'' = r ''code'') (rows df) = Some x"
  shows "(x ''product_name'' = Null \<longrightarrow> r ''product_name'' = Str ''Unknown Product'')
    \<and> (x ''categories'' = Null \<longrightarrow> r ''categories'' = Str ''Uncategorized'')
    \<and> (x ''stores'' = Null \<longrightarrow> r ''stores'' = Str ''Unknown Store'')
    \<and> (x ''countries'' = Null \<longrightarrow> r ''countries'' = Str ''Unknown Country'')
    \<and> (x ''nutriscore_grade'' = Null \<longrightarrow> r ''nutriscore_grade'' = Str ''not_rated'')
    \<and> (x ''quantity'' = Null \<longrightarrow> r ''quantity'' = Str ''Unknown'')
    \<and> r ''categories'' \<noteq> Null \<and> r ''stores'' \<noteq> Null \<and> r ''countries'' \<noteq> Null
    \<and> r ''quantity'' \<noteq> Null
    \<and> (r ''product_name'' = Null \<longleftrightarrow> is_num (x ''product_name''))
    \<and> (r ''nutriscore_grade'' = Null \<longleftrightarrow> is_num (x ''nutriscore_grade''))"
proof -
  have rx: "r = clean_row parse now (columns df) x"
    using ok ne r x by (rule transform_source)
  from transform_nonempty[OF ok ne]
  have "set (''code'' # text_columns) \<subseteq> set (columns df)" by simp
  then have c: "''product_name'' \<in> set (columns df)" "''categories'' \<in> set (columns df)"
    "''stores'' \<in> set (columns df)" "''countries'' \<in> set (columns df)"
    "''nutriscore_grade'' \<in> set (columns df)" "''quantity'' \<in> set (columns df)"
    by (simp_all add: text_columns_def)
  have n: "r ''product_name'' = str_apply title (str_apply strip
       (if x ''product_name'' = Null then Str ''Unknown Product'' else x ''product_name''))"
    unfolding rx using c(1) by (rule clean_row_name)
  have g: "r ''nutriscore_grade'' = str_apply lower (str_apply strip
       (if x ''nutriscore_grade'' = Null then Str ''not_rated'' else x ''nutriscore_grade''))"
    unfolding rx using c(5) by (rule clean_row_grade)
  have p: "r ''categories'' = (if x ''categories'' = Null then Str ''Uncategorized'' else x ''categories'')"
    "r ''stores'' = (if x ''stores'' = Null then Str ''Unknown Store'' else x ''stores'')"
    "r ''countries'' = (if x ''countries'' = Null then Str ''Unknown Country'' else x ''countries'')"
    "r ''quantity'' = (if x ''quantity'' = Null then Str ''Unknown'' else x ''quantity'')"
    unfolding rx using c
    by (simp_all only: clean_row_categories clean_row_stores clean_row_countries
        clean_row_quantity)
  have n1: "x ''product_name'' = Null \<longrightarrow> r ''product_name'' = Str ''Unknown Product''"
    unfolding n by (simp add: title_default)
  have g1: "x ''nutriscore_grade'' = Null \<longrightarrow> r ''nutriscore_grade'' = Str ''not_rated''"
    unfolding g by (simp add: lower_default)
  have n2: "r ''product_name'' = Null \<longleftrightarrow> is_num (x ''product_name'')"
    unfolding n str_apply_Null not_str_fill ..
  have g2: "r ''nutriscore_grade'' = Null \<longleftrightarrow> is_num (x ''nutriscore_grade'')"
    unfolding g str_apply_Null not_str_fill ..
  show ?thesis
    using n1 g1 n2 g2 unfolding p by simp
qed

lemma example_rows:
  "keep_first [] (rows example_batch) =
     [example_row ''A1'' (Str ''cola'') (Str ''B''), example_row ''A2'' Null Null]"
  by (simp add: example_batch_def keep_first_Cons keep_first_Nil example_row_sel)

lemma example_batch_nonempty: "\<not> df_empty example_batch"
  by (simp add: df_empty_def example_batch_def)

lemma example_batch_columns:
  "''product_name'' \<in> set (columns example_batch)"
  "''nutriscore_grade'' \<in> set (columns example_batch)"
  "''code'' \<in> set (columns example_batch)"
  by (simp_all add: example_batch_def)

lemma example_row_other:
  "k \<noteq> ''code'' \<Longrightarrow> k \<noteq> ''product_name'' \<Longrightarrow> k \<noteq> ''nutriscore_grade'' \<Longrightarrow>
   example_row c n g k = Null"
  by (simp add: example_row_def)

theorem quality_flag_priority_witness:
  "\<exists>out. transform_product_data (\<lambda>_. None) 0 example_batch = Inr out
     \<and> (\<exists>r \<in> set (rows out). r ''product_name'' = Str ''Unknown Product''
           \<and> r ''nutriscore_grade'' = Str ''not_rated''
           \<and> r ''quality_flag'' = Str ''missing_nutriscore'')"
proof -
  from example_batch_ok obtain out where
    ok: "transform_product_data (\<lambda>_. None) 0 example_batch = Inr out" by blast
  let ?r = "clean_row (\<lambda>_. None) 0 (columns example_batch) (example_row ''A2'' Null Null)"
  from transform_nonempty[OF ok example_batch_nonempty]
  have "rows out = map (clean_row (\<lambda>_. None) 0 (columns example_batch))
      (keep_first [] (rows example_batch))" by (rule conjunct1)
  then have r: "?r \<in> set (rows out)" by (simp add: example_rows)
  have c: "columns example_batch \<noteq> []" by (simp add: example_batch_def)
  have n: "?r ''product_name'' = Str ''Unknown Product''"
    by (simp add: clean_row_name example_batch_columns example_row_sel title_default)
  have g: "?r ''nutriscore_grade'' = Str ''not_rated''"
    by (simp add: clean_row_grade example_batch_columns example_row_sel lower_default)
  from quality_flag_priority[OF ok c r]
  have "?r ''quality_flag'' = Str ''missing_nutriscore''" unfolding g by simp
  with ok r n g show ?thesis by blast
qed

lemma fieldless_batch_fields:
  "columns fieldless_batch = []" "rows fieldless_batch = [\<lambda>c. Null]"
  by (simp_all add: fieldless_batch_def frame_of_records_def)

text \<open>
  Claim C3 as stated fails: when the API answers with one product that has no field, the
  Extractor returns a frame with one row and no column, the Transformer returns this frame
  unchanged, and its record has no quality flag, although its grade is not \<open>not_rated\<close>
  and its name is not \<open>Unknown Product\<close>.
\<close>

theorem quality_flag_absent_counterexample:
  "extract_product_data (healthy\<lparr>api := (\<lambda>_ _. HttpJson (Some [[]]))\<rparr>) ''beverages'' 100
      = Inr fieldless_batch
   \<and> transform_product_data (\<lambda>_. None) 0 fieldless_batch = Inr fieldless_batch
   \<and> ''quality_flag'' \<notin> set (columns fieldless_batch)
   \<and> (\<exists>r \<in> set (rows fieldless_batch).
         r ''nutriscore_grade'' \<noteq> Str ''not_rated''
         \<and> r ''product_name'' \<noteq> Str ''Unknown Product''
         \<and> r ''quality_flag'' \<noteq> Str ''ok'')"
proof -
  have e: "extract_product_data (healthy\<lparr>api := (\<lambda>_ _. HttpJson (Some [[]]))\<rparr>)
      ''beverages'' 100 = Inr fieldless_batch"
    by (simp add: extract_product_data_def fieldless_batch_def)
  have t: "transform_product_data (\<lambda>_. None) 0 fieldless_batch = Inr fieldless_batch"
    by (simp add: transform_product_data_def df_empty_def fieldless_batch_fields)
  from e t show ?thesis by (simp add: fieldless_batch_fields)
qed

theorem transform_defaults_witness:
  "\<exists>out. transform_product_data (\<lambda>_. None) 0 example_batch = Inr out
     \<and> (\<exists>r \<in> set (rows out). r ''code'' = Str ''A2''
           \<and> r ''product_name'' = Str ''Unknown Product''
           \<and> r ''categories'' = Str ''Uncategorized''
           \<and> r ''stores'' = Str ''Unknown Store''
           \<and> r ''countries'' = Str ''Unknown Country''
           \<and> r ''nutriscore_grade'' = Str ''not_rated''
           \<and> r ''quantity'' = Str ''Unknown'')"
proof -
  from example_batch_ok obtain out where
    ok: "transform_product_data (\<lambda>_. None) 0 example_batch = Inr out" by blast
  let ?x = "example_row ''A2'' Null Null"
  let ?r = "clean_row (\<lambda>_. None) 0 (columns example_batch) ?x"
  from transform_nonempty[OF ok example_batch_nonempty]
  have "rows out = map (clean_row (\<lambda>_. None) 0 (columns example_batch))
      (keep_first [] (rows example_batch))" by (rule conjunct1)
  then have r: "?r \<in> set (rows out)" by (simp add: example_rows)
  have code: "?r ''code'' = Str ''A2''"
    by (simp add: clean_row_code example_batch_columns example_row_sel)
  have f: "find (\<lambda>y. y ''code'' = ?r ''code'') (rows example_batch) = Some ?x"
    unfolding code by (simp add: example_batch_def example_row_sel)
  have nulls: "?x ''product_name'' = Null" "?x ''categories'' = Null" "?x ''stores'' = Null"
    "?x ''countries'' = Null" "?x ''nutriscore_grade'' = Null" "?x ''quantity'' = Null"
    by (simp_all add: example_row_sel example_row_other)
  from transform_defaults[OF ok example_batch_nonempty r f] nulls
  have "?r ''product_name'' = Str ''Unknown Product''
      \<and> ?r ''categories'' = Str ''Uncategorized''
      \<and> ?r ''stores'' = Str ''Unknown Store''
      \<and> ?r ''countries'' = Str ''Unknown Country''
      \<and> ?r ''nutriscore_grade'' = Str ''not_rated''
      \<and> ?r ''quantity'' = Str ''Unknown''"
    by blast
  with ok r code show ?thesis by blast
qed

lemma numeric_name_rows:
  "keep_first [] (rows numeric_name_batch) =
     [(\<lambda>_. Null)(''product_name'' := Num 5), example_row ''B1'' (Str ''tea'') (Str ''a'')]"
  by (simp add: numeric_name_batch_def keep_first_Cons keep_first_Nil example_row_sel)

lemma numeric_name_batch_ok:
  "\<exists>out. transform_product_data (\<lambda>_. None) 0 numeric_name_batch = Inr out"
proof (rule transform_succeeds)
  show "\<not> df_empty numeric_name_batch" by (simp add: df_empty_def numeric_name_batch_def)
  show "set (''code'' # text_columns) \<subseteq> set (columns numeric_name_batch)"
    by (simp add: text_columns_def numeric_name_batch_def)
  show "\<exists>r \<in> set (keep_first [] (rows numeric_name_batch)). \<not> is_num (r ''product_name'')"
    unfolding numeric_name_rows by (simp add: example_row_sel)
  show "\<exists>r \<in> set (keep_first [] (rows numeric_name_batch)). \<not> is_num (r ''nutriscore_grade'')"
    unfolding numeric_name_rows by (simp add: example_row_sel)
qed

text \<open>
  Claim C2 as stated fails: in a batch whose first record has no code and a number as
  product name, the Transformer returns a record whose code and product name are null.
\<close>

theorem transform_null_field_counterexample:
  "\<exists>out. transform_product_data (\<lambda>_. None) 0 numeric_name_batch = Inr out
     \<and> \<not> df_empty numeric_name_batch
     \<and> (\<exists>r \<in> set (rows out). r ''code'' = Null \<and> r ''product_name'' = Null)"
proof -
  from numeric_name_batch_ok obtain out where
    ok: "transform_product_data (\<lambda>_. None) 0 numeric_name_batch = Inr out" by blast
  have ne: "\<not> df_empty numeric_name_batch"
    by (simp add: df_empty_def numeric_name_batch_def)
  let ?x = "(\<lambda>_. Null)(''product_name'' := Num 5) :: row"
  let ?r = "clean_row (\<lambda>_. None) 0 (columns numeric_name_batch) ?x"
  from transform_nonempty[OF ok ne]
  have "rows out = map (clean_row (\<lambda>_. None) 0 (columns numeric_name_batch))
      (keep_first [] (rows numeric_name_batch))" by (rule conjunct1)
  then have r: "?r \<in> set (rows out)" unfolding numeric_name_rows by simp
  have cols: "''code'' \<in> set (columns numeric_name_batch)"
    "''product_name'' \<in> set (columns numeric_name_batch)"
    by (simp_all add: numeric_name_batch_def)
  have c: "?r ''code'' = Null" by (simp add: clean_row_code cols)
  have n: "?r ''product_name'' = Null" by (simp add: clean_row_name cols)
  from ok ne r c n show ?thesis by blast
qed

subsection \<open>A batch without a text column\<close>

lemma transform_missing_name:
  assumes ne: "\<not> df_empty df" and code: "''code'' \<in> set (columns df)"
    and name: "''product_name'' \<notin> set (columns df)"
  shows "transform_product_data parse now df = Inl (KeyError ''product_name'')"
proof -
  define cp where "cp = filter (\<lambda>c. c \<in> set (columns df)) columns_needed"
  have c: "''code'' \<in> set cp" using code by (simp add: cp_def code_needed)
  have n: "''product_name'' \<notin> set cp" using name by (simp add: cp_def)
  have d: "drop_duplicates (select_cols df cp) ''code''
      = Inr \<lparr>columns = cp, rows = keep_first [] (rows (select_cols df cp))\<rparr>"
    using c by (simp add: drop_duplicates_code select_cols_def)
  have h: "handle_nulls \<lparr>columns = cp, rows = rs\<rparr> = Inl (KeyError ''product_name'')" for rs
    using n by (simp add: handle_nulls_def fill_col_eq bind_err_def)
  show ?thesis
    using ne unfolding transform_product_data_def Let_def cp_def[symmetric]
    by (simp add: d h bind_err_def)
qed

text \<open>
  Claim C4. The claim says that a fixed field absent from the records never makes the
  Transformer fail. On a batch whose records have a code and nothing else, the column
  \<open>product_name\<close> does not exist and step 3 raises KeyError.
\<close>

theorem transform_absent_field_fails:
  "transform_product_data parse now code_only_batch = Inl (KeyError ''product_name'')"
  by (rule transform_missing_name) (simp_all add: code_only_batch_def df_empty_def)

section \<open>Properties of the Loader\<close>

subsection \<open>The cases of the Loader\<close>

lemma say_fields:
  "staging (say l w) = staging w" "production (say l w) = production w"
  "audit_log (say l w) = audit_log w" "stdout (say l w) = stdout w @ [l]"
  by (simp_all add: say_def)

lemma verified_fields:
  "staging (foldl (\<lambda>w n. say (Verified n) w) w ns) = staging w"
  "production (foldl (\<lambda>w n. say (Verified n) w) w ns) = production w"
  "audit_log (foldl (\<lambda>w n. say (Verified n) w) w ns) = audit_log w"
  "stdout (foldl (\<lambda>w n. say (Verified n) w) w ns) = stdout w @ map Verified ns"
  by (induction ns arbitrary: w) (simp_all add: say_fields)

lemma log_pipeline_run_eq:
  "log_pipeline_run sv st n err w =
     (Inr PyNone,
      case audit_failure sv of
        Some e \<Rightarrow> say (AuditWarning e) w
      | None \<Rightarrow> say (AuditUpdated st) (w\<lparr>audit_log := audit_log w @ [log_entry sv st n err]\<rparr>))"
  by (simp add: log_pipeline_run_def audit_steps_def audit_failure_def split: option.splits)

lemma staged_fields:
  "staging (staged sv w) = staging w" "production (staged sv w) = production w"
  "audit_log (staged sv w) = audit_log w"
  "stdout (staged sv w) = stdout w @ [dataset_line sv, LoadingToStaging]"
  by (simp_all add: staged_def say_fields)

lemma load_steps_client:
  "client_error sv = Some e \<Longrightarrow> load_steps sv df w = (Inl e, w)"
  by (simp add: load_steps_def)

lemma load_steps_staging:
  "client_error sv = None \<Longrightarrow> staging_error sv = Some e \<Longrightarrow>
   load_steps sv df w = (Inl e, (staged sv w)\<lparr>staging := failed_staging sv (staging w)\<rparr>)"
  by (cases "create_dataset_error sv")
     (simp_all add: load_steps_def Let_def staged_def dataset_line_def say_fields)

lemma load_steps_swap:
  "client_error sv = None \<Longrightarrow> staging_error sv = None \<Longrightarrow> swap_error sv = Some e \<Longrightarrow>
   load_steps sv df w =
     (Inl e, say StagingComplete ((staged sv w)\<lparr>staging := Some (datetimes_to_text sv df)\<rparr>))"
  by (cases "create_dataset_error sv")
     (simp_all add: load_steps_def Let_def staged_def dataset_line_def)

lemma load_steps_count:
  "client_error sv = None \<Longrightarrow> staging_error sv = None \<Longrightarrow> swap_error sv = None \<Longrightarrow>
   count_error sv = Some e \<Longrightarrow>
   load_steps sv df w =
     (Inl e, say ProductionUpdated
        ((say StagingComplete ((staged sv w)\<lparr>staging := Some (datetimes_to_text sv df)\<rparr>))
           \<lparr>production := Some (datetimes_to_text sv df)\<rparr>))"
  by (cases "create_dataset_error sv")
     (simp_all add: load_steps_def Let_def staged_def dataset_line_def say_fields)

lemma load_steps_ok:
  "client_error sv = None \<Longrightarrow> staging_error sv = None \<Longrightarrow> swap_error sv = None \<Longrightarrow>
   count_error sv = None \<Longrightarrow>
   load_steps sv df w =
     (Inr (), foldl (\<lambda>w n. say (Verified n) w)
        (say ProductionUpdated
          ((say StagingComplete ((staged sv w)\<lparr>staging := Some (datetimes_to_text sv df)\<rparr>))
             \<lparr>production := Some (datetimes_to_text sv df)\<rparr>))
        (count_rows sv))"
  by (cases "create_dataset_error sv")
     (simp_all add: load_steps_def Let_def staged_def dataset_line_def say_fields)

lemma load_empty:
  "df_empty df \<Longrightarrow>
   load_to_bigquery sv df w = (Inr PyNone, say LoadSkippedEmpty (say (LoadStart (len df)) w))"
  by (simp add: load_to_bigquery_def)

lemma load_nonempty:
  "\<not> df_empty df \<Longrightarrow>
   load_to_bigquery sv df w =
     (case load_steps sv df (say (LoadStart (len df)) w) of
        (Inl e, w') \<Rightarrow> (Inl e, say (LoadError e) w')
      | (Inr _, w') \<Rightarrow> (Inr PyNone, w'))"
  by (simp add: load_to_bigquery_def)

text \<open>The five ways through the Loader on a non-empty batch.\<close>

lemma load_cases:
  assumes ne: "\<not> df_empty df"
  obtains
    (client) e where "client_error sv = Some e"
      "load_to_bigquery sv df w = (Inl e, say (LoadError e) (say (LoadStart (len df)) w))"
  | (staging) e where "client_error sv = None" "staging_error sv = Some e"
      "load_to_bigquery sv df w =
         (Inl e, say (LoadError e) ((staged sv (say (LoadStart (len df)) w))
            \<lparr>staging := failed_staging sv (staging w)\<rparr>))"
  | (swap) e where "client_error sv = None" "staging_error sv = None" "swap_error sv = Some e"
      "load_to_bigquery sv df w =
         (Inl e, say (LoadError e) (say StagingComplete
            ((staged sv (say (LoadStart (len df)) w))
               \<lparr>staging := Some (datetimes_to_text sv df)\<rparr>)))"
  | (count) e where "client_error sv = None" "staging_error sv = None" "swap_error sv = None"
      "count_error sv = Some e"
      "load_to_bigquery sv df w =
         (Inl e, say (LoadError e) (say ProductionUpdated
            ((say StagingComplete ((staged sv (say (LoadStart (len df)) w))
                \<lparr>staging := Some (datetimes_to_text sv df)\<rparr>))
              \<lparr>production := Some (datetimes_to_text sv df)\<rparr>)))"
  | (ok) "client_error sv = None" "staging_error sv = None" "swap_error sv = None"
      "count_error sv = None"
      "load_to_bigquery sv df w =
         (Inr PyNone, foldl (\<lambda>w n. say (Verified n) w)
            (say ProductionUpdated
              ((say StagingComplete ((staged sv (say (LoadStart (len df)) w))
                  \<lparr>staging := Some (datetimes_to_text sv df)\<rparr>))
                \<lparr>production := Some (datetimes_to_text sv df)\<rparr>))
            (count_rows sv))"
proof (cases "client_error sv")
  case (Some e)
  then show ?thesis using client ne by (simp add: load_nonempty load_steps_client)
next
  case c: None
  show ?thesis
  proof (cases "staging_error sv")
    case (Some e)
    then show ?thesis
      using staging c ne by (simp add: load_nonempty load_steps_staging say_fields)
  next
    case s: None
    show ?thesis
    proof (cases "swap_error sv")
      case (Some e)
      then show ?thesis using swap c s ne by (simp add: load_nonempty load_steps_swap)
    next
      case p: None
      show ?thesis
      proof (cases "count_error sv")
        case (Some e)
        then show ?thesis using count c s p ne by (simp add: load_nonempty load_steps_count)
      next
        case None
        then show ?thesis using ok c s p ne by (simp add: load_nonempty load_steps_ok)
      qed
    qed
  qed
qed

lemma load_result:
  assumes ne: "\<not> df_empty df"
  shows "fst (load_to_bigquery sv df w) =
     (case load_failure sv of Some e \<Rightarrow> Inl e | None \<Rightarrow> Inr PyNone)"
  by (rule load_cases[OF ne, of sv w]) (simp_all add: load_failure_def)

lemma load_production:
  assumes ne: "\<not> df_empty df"
  shows "production (snd (load_to_bigquery sv df w)) =
     (if swapped sv then Some (datetimes_to_text sv df) else production w)"
  by (rule load_cases[OF ne, of sv w])
     (simp_all add: swapped_def say_fields staged_fields verified_fields)

lemma load_staging_client:
  assumes ne: "\<not> df_empty df" and c: "client_error sv = Some e"
  shows "staging (snd (load_to_bigquery sv df w)) = staging w"
  by (rule load_cases[OF ne, of sv w]) (use c in \<open>simp_all add: say_fields\<close>)

lemma load_failure_ignores_dataset:
  "load_failure (sv\<lparr>create_dataset_error := d\<rparr>) = load_failure sv"
  "swapped (sv\<lparr>create_dataset_error := d\<rparr>) = swapped sv"
  by (simp_all add: load_failure_def swapped_def cong: option.case_cong)

lemma one_row_batch_nonempty: "\<not> df_empty one_row_batch"
  by (simp add: one_row_batch_def df_empty_def)

subsection \<open>The empty batch\<close>

text \<open>
  Claim C7, as amended. For an empty batch the Loader is a no-op: it returns at once,
  without a value (the Loader never returns a row count), it leaves the staging table,
  the production table and the audit table as they are, it prints two lines, and it does
  not raise.
\<close>

theorem load_empty_is_noop:
  assumes "df_empty df"
  shows "fst (load_to_bigquery sv df w) = Inr PyNone
    \<and> staging (snd (load_to_bigquery sv df w)) = staging w
    \<and> production (snd (load_to_bigquery sv df w)) = production w
    \<and> audit_log (snd (load_to_bigquery sv df w)) = audit_log w
    \<and> stdout (snd (load_to_bigquery sv df w)) = stdout w @ [LoadStart (len df), LoadSkippedEmpty]"
  using assms by (simp add: load_empty say_fields)

theorem load_empty_is_noop_witness:
  "df_empty \<lparr>columns = [], rows = []\<rparr>
    \<and> fst (load_to_bigquery healthy \<lparr>columns = [], rows = []\<rparr> fresh) = Inr PyNone
    \<and> staging (snd (load_to_bigquery healthy \<lparr>columns = [], rows = []\<rparr> fresh)) = None
    \<and> production (snd (load_to_bigquery healthy \<lparr>columns = [], rows = []\<rparr> fresh)) = None"
proof -
  have e: "df_empty \<lparr>columns = [], rows = []\<rparr>" by (simp add: df_empty_def)
  from load_empty_is_noop[OF e, of healthy fresh] e show ?thesis
    by (simp add: fresh_def)
qed

text \<open>
  Claim C7 as stated fails: what the Loader returns for an empty batch is \<open>None\<close>, not
  a row count of 0.
\<close>

theorem load_empty_returns_none_counterexample:
  "fst (load_to_bigquery healthy \<lparr>columns = [], rows = []\<rparr> fresh) \<noteq> Inr (PyInt 0)"
  by (simp add: load_empty df_empty_def)

subsection \<open>Failures and the production table\<close>

text \<open>
  Claim C6, as amended. On a non-empty batch, a failure of the client creation, of the
  staging write (step 2) or of the swap (step 3) makes the Loader raise the underlying
  exception, and the production table keeps its previous contents (a failed client
  creation leaves the staging table too). Production is only ever its previous contents
  or the whole new batch, and it is the new batch whenever the Loader returns. A failure
  of the dataset creation (step 1) is caught: it changes neither the result of the Loader
  nor the production table.
\<close>

theorem load_failure_keeps_production:
  assumes ne: "\<not> df_empty df"
  shows "(client_error sv = Some e \<longrightarrow>
            fst (load_to_bigquery sv df w) = Inl e
            \<and> production (snd (load_to_bigquery sv df w)) = production w
            \<and> staging (snd (load_to_bigquery sv df w)) = staging w)
    \<and> (client_error sv = None \<and> staging_error sv = Some e \<longrightarrow>
            fst (load_to_bigquery sv df w) = Inl e
            \<and> production (snd (load_to_bigquery sv df w)) = production w)
    \<and> (client_error sv = None \<and> staging_error sv = None \<and> swap_error sv = Some e \<longrightarrow>
            fst (load_to_bigquery sv df w) = Inl e
            \<and> production (snd (load_to_bigquery sv df w)) = production w)
    \<and> (production (snd (load_to_bigquery sv df w)) = production w
         \<or> production (snd (load_to_bigquery sv df w)) = Some (datetimes_to_text sv df))
    \<and> (fst (load_to_bigquery sv df w) = Inr PyNone \<longrightarrow>
          production (snd (load_to_bigquery sv df w)) = Some (datetimes_to_text sv df))
    \<and> fst (load_to_bigquery (sv\<lparr>create_dataset_error := d\<rparr>) df w)
         = fst (load_to_bigquery sv df w)
    \<and> production (snd (load_to_bigquery (sv\<lparr>create_dataset_error := d\<rparr>) df w))
         = production (snd (load_to_bigquery sv df w))"
proof -
  note r = load_result[OF ne] and p = load_production[OF ne]
  have a: "client_error sv = Some e \<longrightarrow>
            fst (load_to_bigquery sv df w) = Inl e
            \<and> production (snd (load_to_bigquery sv df w)) = production w
            \<and> staging (snd (load_to_bigquery sv df w)) = staging w"
    using load_staging_client[OF ne, of sv _ w]
    by (simp add: r p load_failure_def swapped_def)
  have b: "client_error sv = None \<and> staging_error sv = Some e \<longrightarrow>
            fst (load_to_bigquery sv df w) = Inl e
            \<and> production (snd (load_to_bigquery sv df w)) = production w"
    by (simp add: r p load_failure_def swapped_def)
  have c: "client_error sv = None \<and> staging_error sv = None \<and> swap_error sv = Some e \<longrightarrow>
            fst (load_to_bigquery sv df w) = Inl e
            \<and> production (snd (load_to_bigquery sv df w)) = production w"
    by (simp add: r p load_failure_def swapped_def)
  have d1: "production (snd (load_to_bigquery sv df w)) = production w
         \<or> production (snd (load_to_bigquery sv df w)) = Some (datetimes_to_text sv df)"
    by (simp add: p)
  have d2: "fst (load_to_bigquery sv df w) = Inr PyNone \<longrightarrow>
          production (snd (load_to_bigquery sv df w)) = Some (datetimes_to_text sv df)"
    by (auto simp: r p load_failure_def swapped_def split: option.splits)
  have f: "fst (load_to_bigquery (sv\<lparr>create_dataset_error := d\<rparr>) df w)
         = fst (load_to_bigquery sv df w)"
    by (simp add: r load_failure_ignores_dataset)
  have g: "production (snd (load_to_bigquery (sv\<lparr>create_dataset_error := d\<rparr>) df w))
         = production (snd (load_to_bigquery sv df w))"
    by (simp add: p load_failure_ignores_dataset)
  from a b c d1 d2 f g show ?thesis by blast
qed

lemma healthy_fields:
  "client_error healthy = None" "create_dataset_error healthy = None"
  "staging_error healthy = None" "swap_error healthy = None" "count_error healthy = None"
  "count_rows healthy = [1]" "audit_client_error healthy = None"
  "audit_write_error healthy = None" "datetimes_to_text healthy = id"
  "failed_staging healthy = id" "clock healthy = 0"
  by (simp_all add: healthy_def)

lemma fresh_fields:
  "staging fresh = None" "production fresh = None" "audit_log fresh = []" "stdout fresh = []"
  by (simp_all add: fresh_def)

theorem load_failure_keeps_production_witness:
  "\<not> df_empty one_row_batch
   \<and> fst (load_to_bigquery (healthy\<lparr>staging_error := Some (WarehouseError ''quota'')\<rparr>)
             one_row_batch (fresh\<lparr>production := Some example_batch\<rparr>))
       = Inl (WarehouseError ''quota'')
   \<and> production (snd (load_to_bigquery
         (healthy\<lparr>staging_error := Some (WarehouseError ''quota'')\<rparr>)
         one_row_batch (fresh\<lparr>production := Some example_batch\<rparr>)))
       = Some example_batch"
  using load_failure_keeps_production[OF one_row_batch_nonempty,
      of "healthy\<lparr>staging_error := Some (WarehouseError ''quota'')\<rparr>"
         "WarehouseError ''quota''" "fresh\<lparr>production := Some example_batch\<rparr>"]
    one_row_batch_nonempty
  by (simp add: healthy_fields)

text \<open>
  Claim C6 as stated fails for step 1: when the dataset creation raises, the Loader does
  not abort. It returns, and the production table holds the new batch.
\<close>

theorem load_dataset_failure_counterexample:
  "fst (load_to_bigquery (healthy\<lparr>create_dataset_error := Some (WarehouseError ''denied'')\<rparr>)
          one_row_batch (fresh\<lparr>production := Some example_batch\<rparr>)) = Inr PyNone
   \<and> production (snd (load_to_bigquery
         (healthy\<lparr>create_dataset_error := Some (WarehouseError ''denied'')\<rparr>)
         one_row_batch (fresh\<lparr>production := Some example_batch\<rparr>)))
       = Some one_row_batch"
  by (simp add: load_result[OF one_row_batch_nonempty] load_production[OF one_row_batch_nonempty]
      load_failure_def swapped_def healthy_fields)

subsection \<open>The verification step\<close>

lemma load_failure_None:
  "load_failure sv = None \<longleftrightarrow>
     client_error sv = None \<and> staging_error sv = None \<and> swap_error sv = None
     \<and> count_error sv = None"
  by (simp add: load_failure_def split: option.splits)

lemma load_stdout_ok:
  assumes ne: "\<not> df_empty df" and ok: "load_failure sv = None"
  shows "stdout (snd (load_to_bigquery sv df w)) =
     stdout w @ [LoadStart (len df), dataset_line sv, LoadingToStaging, StagingComplete,
       ProductionUpdated] @ map Verified (count_rows sv)"
  by (rule load_cases[OF ne, of sv w])
     (use ok in \<open>simp_all add: load_failure_None say_fields staged_fields verified_fields\<close>)

text \<open>
  Claim C8, as amended. When no step of the Loader raises on a non-empty batch, the Loader
  reads back the row count of the production table and prints it, one line \<open>Verified\<close>
  for each row of the answer, after the lines of steps 1 to 3. It does not compare the
  count with the batch size: whatever the count query answers, the Loader returns
  normally, without a value, and the production table holds the new batch.
\<close>

theorem load_verification_only_logs:
  assumes ne: "\<not> df_empty df" and ok: "load_failure sv = None"
  shows "fst (load_to_bigquery sv df w) = Inr PyNone
    \<and> production (snd (load_to_bigquery sv df w)) = Some (datetimes_to_text sv df)
    \<and> stdout (snd (load_to_bigquery sv df w)) =
        stdout w @ [LoadStart (len df), dataset_line sv, LoadingToStaging, StagingComplete,
          ProductionUpdated] @ map Verified (count_rows sv)
    \<and> fst (load_to_bigquery (sv\<lparr>count_rows := ns\<rparr>) df w) = Inr PyNone
    \<and> production (snd (load_to_bigquery (sv\<lparr>count_rows := ns\<rparr>) df w))
        = production (snd (load_to_bigquery sv df w))"
proof -
  have ok': "load_failure (sv\<lparr>count_rows := ns\<rparr>) = None"
    using ok by (simp add: load_failure_None)
  have sw: "swapped sv" "swapped (sv\<lparr>count_rows := ns\<rparr>)"
    using ok by (simp_all add: load_failure_None swapped_def)
  show ?thesis
    using load_stdout_ok[OF ne ok, of w] sw
    by (simp add: load_result[OF ne] load_production[OF ne] ok ok')
qed

theorem load_verification_only_logs_witness:
  "\<not> df_empty one_row_batch \<and> load_failure healthy = None
   \<and> fst (load_to_bigquery healthy one_row_batch fresh) = Inr PyNone
   \<and> stdout (snd (load_to_bigquery healthy one_row_batch fresh)) =
       [LoadStart 1, DatasetReady, LoadingToStaging, StagingComplete, ProductionUpdated,
        Verified 1]"
proof -
  have ok: "load_failure healthy = None" by (simp add: load_failure_None healthy_fields)
  have l: "len one_row_batch = 1" by (simp add: len_def one_row_batch_def)
  from load_verification_only_logs[OF one_row_batch_nonempty ok, of fresh]
  show ?thesis
    using one_row_batch_nonempty ok
    by (simp add: l dataset_line_def healthy_fields fresh_fields)
qed

text \<open>
  Claim C8 as stated fails: for a batch of one record and a production count of 7 the
  Loader prints the count as verified, signals no mismatch, and returns \<open>None\<close>, not
  the loaded count.
\<close>

theorem load_mismatch_counterexample:
  "len one_row_batch = 1
   \<and> fst (load_to_bigquery (healthy\<lparr>count_rows := [7]\<rparr>) one_row_batch fresh) = Inr PyNone
   \<and> stdout (snd (load_to_bigquery (healthy\<lparr>count_rows := [7]\<rparr>) one_row_batch fresh)) =
       [LoadStart 1, DatasetReady, LoadingToStaging, StagingComplete, ProductionUpdated,
        Verified 7]"
proof -
  have ok: "load_failure (healthy\<lparr>count_rows := [7]\<rparr>) = None"
    by (simp add: load_failure_None healthy_fields)
  have l: "len one_row_batch = 1" by (simp add: len_def one_row_batch_def)
  show ?thesis
    by (simp add: load_result[OF one_row_batch_nonempty] ok
        load_stdout_ok[OF one_row_batch_nonempty ok] l dataset_line_def healthy_fields
        fresh_fields)
qed

section \<open>Properties of a run\<close>

subsection \<open>The AuditLogger and the summary of a run\<close>

lemma audit_calls_say:
  "audit_calls (say l w) = audit_calls w + (if is_audit_line l then 1 else 0)"
  by (simp add: audit_calls_def say_fields)

lemma audit_calls_update [simp]:
  "audit_calls (w\<lparr>staging := s\<rparr>) = audit_calls w"
  "audit_calls (w\<lparr>production := p\<rparr>) = audit_calls w"
  "audit_calls (w\<lparr>audit_log := a\<rparr>) = audit_calls w"
  by (simp_all add: audit_calls_def)

lemma audit_calls_verified:
  "audit_calls (foldl (\<lambda>w n. say (Verified n) w) w ns) = audit_calls w"
  by (induction ns arbitrary: w) (simp_all add: audit_calls_say)

lemma audit_calls_staged: "audit_calls (staged sv w) = audit_calls w"
  by (cases "create_dataset_error sv")
     (simp_all add: staged_def dataset_line_def audit_calls_say)

lemma load_summary:
  "fst (load_to_bigquery sv df w) =
     (if df_empty df then Inr PyNone
      else case load_failure sv of Some e \<Rightarrow> Inl e | None \<Rightarrow> Inr PyNone)"
  "production (snd (load_to_bigquery sv df w)) =
     (if \<not> df_empty df \<and> swapped sv then Some (datetimes_to_text sv df) else production w)"
  by (cases "df_empty df"; simp add: load_empty load_result load_production say_fields)+

lemma load_audit_log: "audit_log (snd (load_to_bigquery sv df w)) = audit_log w"
proof (cases "df_empty df")
  case True
  then show ?thesis by (simp add: load_empty say_fields)
next
  case False
  show ?thesis
    by (rule load_cases[OF False, of sv w])
       (simp_all add: say_fields staged_fields verified_fields)
qed

lemma load_audit_calls: "audit_calls (snd (load_to_bigquery sv df w)) = audit_calls w"
proof (cases "df_empty df")
  case True
  then show ?thesis by (simp add: load_empty audit_calls_say)
next
  case False
  show ?thesis
    by (rule load_cases[OF False, of sv w])
       (simp_all add: audit_calls_say audit_calls_staged audit_calls_verified)
qed

lemma log_run_fields:
  "fst (log_pipeline_run sv st n err w) = Inr PyNone"
  "staging (snd (log_pipeline_run sv st n err w)) = staging w"
  "production (snd (log_pipeline_run sv st n err w)) = production w"
  "audit_log (snd (log_pipeline_run sv st n err w)) =
     audit_log w @ (case audit_failure sv of Some _ \<Rightarrow> [] | None \<Rightarrow> [log_entry sv st n err])"
  "stdout (snd (log_pipeline_run sv st n err w)) =
     stdout w @ [case audit_failure sv of Some e \<Rightarrow> AuditWarning e | None \<Rightarrow> AuditUpdated st]"
  "audit_calls (snd (log_pipeline_run sv st n err w)) = audit_calls w + 1"
  by (cases "audit_failure sv"; simp add: log_pipeline_run_eq say_fields audit_calls_say)+

lemmas run_defs = run_pipeline_def run_steps_def Let_def clean_batch_def stage_failure_def
  run_entry_def bind_err_def say_fields audit_calls_say log_run_fields case_prod_beta

lemma run_pipeline_summary:
  "fst (run_pipeline sv c w) =
     (case stage_failure sv c of Some e \<Rightarrow> Inl (SystemExit 1) | None \<Rightarrow> Inr PyNone)
   \<and> audit_log (snd (run_pipeline sv c w)) =
       audit_log w @ (case audit_failure sv of Some _ \<Rightarrow> [] | None \<Rightarrow> [run_entry sv c])
   \<and> audit_calls (snd (run_pipeline sv c w)) = audit_calls w + 1
   \<and> production (snd (run_pipeline sv c w)) =
       (case clean_batch sv c of
          Inr df \<Rightarrow> if \<not> df_empty df \<and> swapped sv then Some (datetimes_to_text sv df)
                    else production w
        | Inl _ \<Rightarrow> production w)"
proof (cases "extract_product_data sv c 100")
  case (Inl e)
  then show ?thesis by (simp add: run_defs cong: option.case_cong)
next
  case raw: (Inr df_raw)
  show ?thesis
  proof (cases "transform_product_data (parse_number sv) (clock sv) df_raw")
    case (Inl e)
    with raw show ?thesis by (simp add: run_defs cong: option.case_cong)
  next
    case clean: (Inr df_clean)
    define w2 where "w2 = say (Cleaned (len df_clean)) (say (Extracted (len df_raw))
                            (say (PipelineStart c) w))"
    obtain res w3 where l: "load_to_bigquery sv df_clean w2 = (res, w3)"
      by (cases "load_to_bigquery sv df_clean w2")
    have res: "res = (if df_empty df_clean then Inr PyNone
        else case load_failure sv of Some e \<Rightarrow> Inl e | None \<Rightarrow> Inr PyNone)"
      using load_summary(1)[of sv df_clean w2] l by simp
    have p3: "production w3 =
        (if \<not> df_empty df_clean \<and> swapped sv then Some (datetimes_to_text sv df_clean)
         else production w)"
      using load_summary(2)[of sv df_clean w2] l by (simp add: w2_def say_fields)
    have a3: "audit_log w3 = audit_log w"
      using load_audit_log[of sv df_clean w2] l by (simp add: w2_def say_fields)
    have c3: "audit_calls w3 = audit_calls w"
      using load_audit_calls[of sv df_clean w2] l by (simp add: w2_def audit_calls_say)
    show ?thesis
    proof (cases res)
      case (Inl e)
      with res have f: "\<not> df_empty df_clean" "load_failure sv = Some e"
        by (auto split: if_splits option.splits)
      from raw clean l Inl f p3 a3 c3 show ?thesis
        unfolding w2_def by (simp add: run_defs cong: option.case_cong)
    next
      case (Inr v)
      with res have f: "df_empty df_clean \<or> load_failure sv = None"
        by (auto split: if_splits option.splits)
      from raw clean l Inr f p3 a3 c3 show ?thesis
        unfolding w2_def by (auto simp: run_defs cong: option.case_cong)
    qed
  qed
qed

subsection \<open>The audit entry of a run\<close>

lemma ignores_audit:
  "clean_batch (sv\<lparr>audit_client_error := a, audit_write_error := b\<rparr>) c = clean_batch sv c"
  "load_failure (sv\<lparr>audit_client_error := a, audit_write_error := b\<rparr>) = load_failure sv"
  "swapped (sv\<lparr>audit_client_error := a, audit_write_error := b\<rparr>) = swapped sv"
  by (simp_all add: clean_batch_def extract_product_data_def load_failure_def swapped_def
      cong: option.case_cong http_result.case_cong)

lemma stage_failure_ignores_audit:
  "stage_failure (sv\<lparr>audit_client_error := a, audit_write_error := b\<rparr>) c = stage_failure sv c"
  by (simp add: stage_failure_def ignores_audit cong: sum.case_cong if_cong)

text \<open>
  Claim C9. For every status, row count and error, \<open>log_pipeline_run\<close> returns
  normally: a failure inside it is caught and printed as a warning, never raised again.
  The result of a run and the production table it leaves do not depend on whether the
  audit write fails: a failing audit write neither makes a successful run fail nor changes
  the outcome of a failed run.
\<close>

theorem audit_logger_never_raises:
  "fst (log_pipeline_run sv st n err w) = Inr PyNone
   \<and> stdout (snd (log_pipeline_run sv st n err w)) =
       stdout w @ [case audit_failure sv of Some e \<Rightarrow> AuditWarning e | None \<Rightarrow> AuditUpdated st]
   \<and> fst (run_pipeline (sv\<lparr>audit_client_error := a, audit_write_error := b\<rparr>) category w)
       = fst (run_pipeline sv category w)
   \<and> production (snd (run_pipeline (sv\<lparr>audit_client_error := a, audit_write_error := b\<rparr>)
         category w))
       = production (snd (run_pipeline sv category w))"
  using run_pipeline_summary[of sv category w]
    run_pipeline_summary[of "sv\<lparr>audit_client_error := a, audit_write_error := b\<rparr>" category w]
  by (simp add: log_run_fields stage_failure_ignores_audit ignores_audit
      cong: sum.case_cong if_cong)

text \<open>
  Claim C5, as amended. Every run calls the AuditLogger exactly once. The run appends its
  entry to the audit table when the audit write succeeds, and appends nothing when it
  fails. When no stage raises, the run returns (exit code 0) and its entry has status
  \<open>SUCCESS\<close>, no error message and the length of the cleaned batch as row count; when a
  stage raises \<open>e\<close>, the run ends with \<open>sys.exit(1)\<close> and its entry has status
  \<open>FAILED\<close> and the text of \<open>e\<close> as error message.
\<close>

theorem run_calls_audit_once:
  "audit_calls (snd (run_pipeline sv category w)) = audit_calls w + 1
   \<and> audit_log (snd (run_pipeline sv category w)) =
       audit_log w @ (case audit_failure sv of Some _ \<Rightarrow> [] | None \<Rightarrow> [run_entry sv category])
   \<and> (case stage_failure sv category of
         None \<Rightarrow>
           fst (run_pipeline sv category w) = Inr PyNone
           \<and> exit_code (fst (run_pipeline sv category w)) = 0
           \<and> status (run_entry sv category) = ''SUCCESS''
           \<and> error_message (run_entry sv category) = None
           \<and> (\<exists>df. clean_batch sv category = Inr df
                 \<and> rows_loaded (run_entry sv category) = len df)
       | Some e \<Rightarrow>
           fst (run_pipeline sv category w) = Inl (SystemExit 1)
           \<and> exit_code (fst (run_pipeline sv category w)) = 1
           \<and> status (run_entry sv category) = ''FAILED''
           \<and> error_message (run_entry sv category) = Some (error_text e))"
proof (cases "stage_failure sv category")
  case None
  then obtain df where "clean_batch sv category = Inr df"
    by (cases "clean_batch sv category") (simp_all add: stage_failure_def)
  with None show ?thesis
    using run_pipeline_summary[of sv category w]
    by (simp add: run_entry_def log_entry_def)
next
  case (Some e)
  then show ?thesis
    using run_pipeline_summary[of sv category w]
    by (simp add: run_entry_def log_entry_def)
qed

text \<open>
  Claim C10. When a run does not return normally, it ends with \<open>sys.exit(1)\<close>, a
  stage (Extractor, Transformer or Loader) has raised an exception \<open>e\<close>, and what the
  run appended to the audit table is nothing (the audit write failed) or the one entry
  with status \<open>FAILED\<close>, row count 0 and the text of \<open>e\<close>: every entry the run wrote
  has \<open>rows_loaded = 0\<close>.
\<close>

theorem failed_run_reports_zero_rows:
  assumes failed: "fst (run_pipeline sv category w) \<noteq> Inr PyNone"
  shows "fst (run_pipeline sv category w) = Inl (SystemExit 1)
    \<and> (\<exists>e. stage_failure sv category = Some e
          \<and> audit_log (snd (run_pipeline sv category w)) =
              audit_log w @ (case audit_failure sv of
                               Some _ \<Rightarrow> []
                             | None \<Rightarrow> [log_entry sv ''FAILED'' 0 (Some e)]))
    \<and> (\<forall>a \<in> set (drop (length (audit_log w)) (audit_log (snd (run_pipeline sv category w)))).
          status a = ''FAILED'' \<and> rows_loaded a = 0)"
proof -
  note s = run_pipeline_summary[of sv category w]
  from failed s obtain e where e: "stage_failure sv category = Some e"
    by (cases "stage_failure sv category") simp_all
  have re: "run_entry sv category = log_entry sv ''FAILED'' 0 (Some e)"
    by (simp add: run_entry_def e)
  from s e have r: "fst (run_pipeline sv category w) = Inl (SystemExit 1)" by simp
  from s have a: "audit_log (snd (run_pipeline sv category w)) =
      audit_log w @ (case audit_failure sv of Some _ \<Rightarrow> []
                     | None \<Rightarrow> [log_entry sv ''FAILED'' 0 (Some e)])"
    by (simp add: re cong: option.case_cong)
  have "\<forall>a \<in> set (drop (length (audit_log w)) (audit_log (snd (run_pipeline sv category w)))).
          status a = ''FAILED'' \<and> rows_loaded a = 0"
    unfolding a by (cases "audit_failure sv") (simp_all add: log_entry_def)
  with r e a show ?thesis by blast
qed

lemma timed_out_fails: "stage_failure timed_out c = Some (Timeout ''timed out'')"
  by (simp add: stage_failure_def clean_batch_def extract_product_data_def bind_err_def
      timed_out_def)

lemma timed_out_audit: "audit_failure timed_out = None" "clock timed_out = 0"
  by (simp_all add: audit_failure_def timed_out_def healthy_fields)

lemma healthy_clean: "clean_batch healthy c = Inr \<lparr>columns = [], rows = []\<rparr>"
  by (simp add: clean_batch_def extract_product_data_def bind_err_def healthy_def
      transform_product_data_def df_empty_def)

lemma broken_audit_clean: "clean_batch broken_audit c = Inr \<lparr>columns = [], rows = []\<rparr>"
  by (simp add: clean_batch_def extract_product_data_def bind_err_def healthy_def
      broken_audit_def transform_product_data_def df_empty_def)

lemma broken_audit_ok: "stage_failure broken_audit c = None"
  by (simp add: stage_failure_def broken_audit_clean df_empty_def)

lemma broken_audit_failure:
  "audit_failure broken_audit = Some (WarehouseError ''audit table missing'')"
  by (simp add: audit_failure_def broken_audit_def healthy_fields)

theorem failed_run_reports_zero_rows_witness:
  "fst (run_pipeline timed_out ''beverages'' fresh) \<noteq> Inr PyNone
   \<and> fst (run_pipeline timed_out ''beverages'' fresh) = Inl (SystemExit 1)
   \<and> audit_log (snd (run_pipeline timed_out ''beverages'' fresh)) =
       [\<lparr>run_timestamp = 0, status = ''FAILED'', rows_loaded = 0,
         error_message = Some ''timed out'', pipeline_version = ''1.0''\<rparr>]"
proof -
  have f: "fst (run_pipeline timed_out ''beverages'' fresh) \<noteq> Inr PyNone"
    using run_pipeline_summary[of timed_out "''beverages''" fresh]
    by (simp add: timed_out_fails)
  from failed_run_reports_zero_rows[OF f] f show ?thesis
    by (simp add: timed_out_fails timed_out_audit log_entry_def fresh_fields)
qed

theorem run_calls_audit_once_witness:
  "audit_calls (snd (run_pipeline healthy ''snacks'' fresh)) = 1
   \<and> fst (run_pipeline healthy ''snacks'' fresh) = Inr PyNone
   \<and> audit_log (snd (run_pipeline healthy ''snacks'' fresh)) =
       [\<lparr>run_timestamp = 0, status = ''SUCCESS'', rows_loaded = 0,
         error_message = None, pipeline_version = ''1.0''\<rparr>]"
proof -
  have s: "stage_failure healthy ''snacks'' = None"
    by (simp add: stage_failure_def healthy_clean df_empty_def)
  have a: "audit_failure healthy = None"
    by (simp add: audit_failure_def healthy_fields)
  have e: "run_entry healthy ''snacks'' =
      \<lparr>run_timestamp = 0, status = ''SUCCESS'', rows_loaded = 0,
        error_message = None, pipeline_version = ''1.0''\<rparr>"
    by (simp add: run_entry_def s healthy_clean log_entry_def len_def healthy_fields)
  from run_calls_audit_once[of healthy "''snacks''" fresh] show ?thesis
    by (simp add: s a e fresh_fields audit_calls_def)
qed

text \<open>
  Claim C5 as stated fails: when the audit write raises, a run that is otherwise
  successful writes no AuditEntry at all.
\<close>

theorem run_without_audit_entry_counterexample:
  "fst (run_pipeline broken_audit ''beverages'' fresh) = Inr PyNone
   \<and> audit_log (snd (run_pipeline broken_audit ''beverages'' fresh)) = []"
  using run_pipeline_summary[of broken_audit "''beverages''" fresh]
  by (simp add: broken_audit_ok broken_audit_failure fresh_fields)

theorem audit_logger_never_raises_witness:
  "fst (log_pipeline_run broken_audit ''SUCCESS'' 5 None fresh) = Inr PyNone
   \<and> stdout (snd (log_pipeline_run broken_audit ''SUCCESS'' 5 None fresh)) =
       [AuditWarning (WarehouseError ''audit table missing'')]
   \<and> fst (run_pipeline (healthy\<lparr>audit_client_error := None,
              audit_write_error := Some (WarehouseError ''audit table missing'')\<rparr>)
            ''beverages'' fresh)
       = fst (run_pipeline healthy ''beverages'' fresh)"
proof -
  note t = audit_logger_never_raises[where sv = broken_audit and st = "''SUCCESS''"
      and n = 5 and err = None and w = fresh]
  note u = audit_logger_never_raises[where sv = healthy and w = fresh and a = None
      and b = "Some (WarehouseError ''audit table missing'')" and category = "''beverages''"]
  from t have 1: "fst (log_pipeline_run broken_audit ''SUCCESS'' 5 None fresh) = Inr PyNone"
    by (rule conjunct1)
  from t have 2: "stdout (snd (log_pipeline_run broken_audit ''SUCCESS'' 5 None fresh)) =
       [AuditWarning (WarehouseError ''audit table missing'')]"
    by (simp add: broken_audit_failure fresh_fields)
  from u have 3: "fst (run_pipeline (healthy\<lparr>audit_client_error := None,
              audit_write_error := Some (WarehouseError ''audit table missing'')\<rparr>)
            ''beverages'' fresh)
       = fst (run_pipeline healthy ''beverages'' fresh)"
    by blast
  from 1 2 3 show ?thesis by blast
qed

end
